theory Spec2Isabelle
  imports Main "HOL-Library.Word"
begin

section \<open>Console plugin controllers of the workspace API\<close>

text \<open>
  A shallow embedding of \<^verbatim>\<open>api/controllers/console/workspace/plugin.py\<close>.
  Every resource method is a function of the ambient request data (the current user, the
  parsed arguments, the uploaded files), of the configuration and of the services it
  calls. The services, the decorators and the configuration are imported by the module
  and are parameters of the model, collected in an environment. A method returns either
  the exception it raises or its response, together with the state it leaves behind.
  The arguments of a method are the values \<^verbatim>\<open>parse_args()\<close> returns: a request the
  parser rejects does not reach the code after the parse.
\<close>

subsection \<open>Values\<close>

type_synonym bytes = "8 word list"

text \<open>
  Modelled from the spec: the enumerations of \<^verbatim>\<open>models.account\<close> are not part of
  the module. The data model gives \<open>install_permission\<close> and \<open>debug_permission\<close> the
  values everyone, admin_owner-only and noone, \<open>strategy_setting\<close> the values disabled,
  fix_only and all, and \<open>upgrade_mode\<close> the values exclude and include. The module itself
  names the members \<open>EVERYONE\<close>, \<open>DISABLED\<close> and \<open>EXCLUDE\<close> and the values
  \<open>"everyone"\<close>, \<open>"fix_only"\<close> and \<open>"exclude"\<close>.
\<close>

datatype InstallPermission =
  InstallPermission_EVERYONE | InstallPermission_ADMIN_OWNER_ONLY | InstallPermission_NOONE

datatype DebugPermission =
  DebugPermission_EVERYONE | DebugPermission_ADMIN_OWNER_ONLY | DebugPermission_NOONE

datatype StrategySetting =
  StrategySetting_DISABLED | StrategySetting_FIX_ONLY | StrategySetting_ALL

datatype UpgradeMode =
  UpgradeMode_EXCLUDE | UpgradeMode_INCLUDE

text \<open>
  Python values as the module handles them: JSON data of the request, opaque results of the
  services, enumeration members, and the dictionaries the methods build (a dictionary
  literal is the list of its items in the order written).
\<close>

datatype pyval =
    PNone
  | PBool bool
  | PInt int
  | PStr string
  | PList "pyval list"
  | PDict "(string \<times> pyval) list"
  | PInstallPermission InstallPermission
  | PDebugPermission DebugPermission
  | PStrategySetting StrategySetting
  | PUpgradeMode UpgradeMode

text \<open>
  Modelled from the spec: \<^verbatim>\<open>PluginDaemonClientSideError\<close> is declared in
  \<^verbatim>\<open>core.plugin.impl.exc\<close>, outside the module. The spec describes a daemon error as
  carrying a machine-readable code and a human message.
\<close>

record daemon_error =
  code :: string
  message :: string

text \<open>
  The argument of a \<^verbatim>\<open>ValueError\<close>: a message text, the caught daemon exception
  in \<^verbatim>\<open>raise ValueError(e)\<close>, or the value an enumeration class rejected.
\<close>

datatype value_error_arg =
    Text string
  | Caught daemon_error
  | Not_a_valid pyval string  \<comment> \<open>an enumeration called on a value that is none of its members\<close>

datatype exn =
    PluginDaemonClientSideError daemon_error
  | ValueError value_error_arg
  | Forbidden
  | KeyError string
  | OtherException string

text \<open>The response of a method.\<close>

datatype response =
    Returned_dict pyval  \<comment> \<open>\<^verbatim>\<open>return {...}\<close>\<close>
  | Jsonable_encoder pyval  \<comment> \<open>\<^verbatim>\<open>return jsonable_encoder(...)\<close>\<close>
  | Send_file bytes string int  \<comment> \<open>\<^verbatim>\<open>send_file(io.BytesIO(b), mimetype=m, max_age=a)\<close>\<close>

subsection \<open>Ambient data\<close>

record dify_config =
  PLUGIN_REMOTE_INSTALL_HOST :: pyval
  PLUGIN_REMOTE_INSTALL_PORT :: pyval
  TOOL_ICON_CACHE_MAX_AGE :: int
  PLUGIN_MAX_PACKAGE_SIZE :: int
  PLUGIN_MAX_BUNDLE_SIZE :: int

text \<open>\<^verbatim>\<open>current_user\<close>, with the attributes the module reads.\<close>

record account =
  account_id :: string  \<comment> \<open>\<^verbatim>\<open>current_user.id\<close>\<close>
  current_tenant_id :: string
  is_admin_or_owner :: bool

text \<open>An uploaded file of \<^verbatim>\<open>request.files\<close>: its declared length and what \<^verbatim>\<open>read()\<close> returns.\<close>

record file_storage =
  content_length :: int
  content :: bytes

text \<open>The decorators of the module, in the order they are written on a method.\<close>

datatype decorator =
    setup_required
  | login_required
  | account_initialization_required
  | plugin_permission_required (install_required: bool) (debug_required: bool)

text \<open>Objects returned by services whose attributes the module reads.\<close>

record plugins_with_total =
  list :: pyval
  total :: pyval

record plugin_declaration =
  model_dump :: pyval

record TenantPluginPermission =
  install_permission :: InstallPermission
  debug_permission :: DebugPermission

record TenantPluginAutoUpgradeStrategy =
  strategy_setting :: StrategySetting
  upgrade_time_of_day :: pyval
  upgrade_mode :: UpgradeMode
  exclude_plugins :: pyval
  include_plugins :: pyval

subsection \<open>Service calls and the trace\<close>

text \<open>Every static method of a service class the module calls, with its arguments.\<close>

datatype call =
    Get_debugging_key string
  | List_with_total string int int
  | List_latest_versions "pyval list"
  | List_installations_from_ids string "pyval list"
  | Get_asset string string
  | Upload_pkg string bytes
  | Upload_pkg_from_github string string string string
  | Upload_bundle string bytes
  | Install_from_local_pkg string "pyval list"
  | Install_from_github string string string string string
  | Install_from_marketplace_pkg string "pyval list"
  | Fetch_marketplace_pkg string string
  | Fetch_plugin_manifest string string
  | Fetch_install_tasks string int int
  | Fetch_install_task string string
  | Delete_install_task string string
  | Delete_all_install_task_items string
  | Delete_install_task_item string string string
  | Upgrade_plugin_with_marketplace string string string
  | Upgrade_plugin_with_github string string string string string string
  | Uninstall string string
  | Change_permission string InstallPermission DebugPermission
  | Get_permission string
  | Get_dynamic_select_options string string string string string string string
  | Change_strategy string StrategySetting pyval UpgradeMode pyval pyval
  | Get_strategy string
  | Exclude_plugin string string

datatype outcome = Returns | Raises exn

datatype event =
    File_read file_storage
  | Service call outcome

text \<open>
  The state a method runs in: the trace of the effects performed so far, and the state of
  everything behind the services (daemon, database), of a type the module knows nothing
  about.
\<close>

record 's state =
  trace :: "event list"
  ext :: 's

type_synonym ('s, 'a) svc = "'s \<Rightarrow> (exn + 'a) \<times> 's"

type_synonym ('s, 'a) prog = "'s state \<Rightarrow> (exn + 'a) \<times> 's state"

definition return :: "'a \<Rightarrow> ('s, 'a) prog" where
  "return x st = (Inr x, st)"

definition raise :: "exn \<Rightarrow> ('s, 'a) prog" where
  "raise e st = (Inl e, st)"

definition bind :: "('s, 'a) prog \<Rightarrow> ('a \<Rightarrow> ('s, 'b) prog) \<Rightarrow> ('s, 'b) prog" where
  "bind m f st = (case m st of (Inl e, st') \<Rightarrow> (Inl e, st') | (Inr x, st') \<Rightarrow> f x st')"

text \<open>
  \<^verbatim>\<open>try: ... except PluginDaemonClientSideError as e: raise ValueError(e)\<close>:
  what the handler makes of the outcome of the guarded block.
\<close>

fun reraise :: "exn \<Rightarrow> exn" where
  "reraise (PluginDaemonClientSideError e) = ValueError (Caught e)"
| "reraise e = e"

fun reraised :: "exn + 'a \<Rightarrow> exn + 'a" where
  "reraised (Inl e) = Inl (reraise e)"
| "reraised (Inr v) = Inr v"

definition try_except :: "('s, 'a) prog \<Rightarrow> ('s, 'a) prog" where
  "try_except m st = (case m st of (r, st') \<Rightarrow> (reraised r, st'))"

fun outcome_of :: "exn + 'a \<Rightarrow> outcome" where
  "outcome_of (Inl e) = Raises e"
| "outcome_of (Inr _) = Returns"

text \<open>Calling a service runs it on the state behind it and records the call.\<close>

definition invoke :: "call \<Rightarrow> ('s, 'a) svc \<Rightarrow> ('s, 'a) prog" where
  "invoke c f st =
     (case f (ext st) of
        (r, x) \<Rightarrow> (r, \<lparr>trace = trace st @ [Service c (outcome_of r)], ext = x\<rparr>))"

text \<open>\<^verbatim>\<open>file.read()\<close>\<close>

definition read :: "file_storage \<Rightarrow> ('s, bytes) prog" where
  "read file st = (Inr (content file), st\<lparr>trace := trace st @ [File_read file]\<rparr>)"

subsection \<open>The environment\<close>

record 's PluginService =
  get_debugging_key :: "string \<Rightarrow> ('s, pyval) svc"
  list_with_total :: "string \<Rightarrow> int \<Rightarrow> int \<Rightarrow> ('s, plugins_with_total) svc"
  list_latest_versions :: "pyval list \<Rightarrow> ('s, pyval) svc"
  list_installations_from_ids :: "string \<Rightarrow> pyval list \<Rightarrow> ('s, pyval) svc"
  get_asset :: "string \<Rightarrow> string \<Rightarrow> ('s, bytes \<times> string) svc"
  upload_pkg :: "string \<Rightarrow> bytes \<Rightarrow> ('s, pyval) svc"
  upload_pkg_from_github :: "string \<Rightarrow> string \<Rightarrow> string \<Rightarrow> string \<Rightarrow> ('s, pyval) svc"
  upload_bundle :: "string \<Rightarrow> bytes \<Rightarrow> ('s, pyval) svc"
  install_from_local_pkg :: "string \<Rightarrow> pyval list \<Rightarrow> ('s, pyval) svc"
  install_from_github ::
    "string \<Rightarrow> string \<Rightarrow> string \<Rightarrow> string \<Rightarrow> string \<Rightarrow> ('s, pyval) svc"
  install_from_marketplace_pkg :: "string \<Rightarrow> pyval list \<Rightarrow> ('s, pyval) svc"
  fetch_marketplace_pkg :: "string \<Rightarrow> string \<Rightarrow> ('s, pyval) svc"
  fetch_plugin_manifest :: "string \<Rightarrow> string \<Rightarrow> ('s, plugin_declaration) svc"
  fetch_install_tasks :: "string \<Rightarrow> int \<Rightarrow> int \<Rightarrow> ('s, pyval) svc"
  fetch_install_task :: "string \<Rightarrow> string \<Rightarrow> ('s, pyval) svc"
  delete_install_task :: "string \<Rightarrow> string \<Rightarrow> ('s, pyval) svc"
  delete_all_install_task_items :: "string \<Rightarrow> ('s, pyval) svc"
  delete_install_task_item :: "string \<Rightarrow> string \<Rightarrow> string \<Rightarrow> ('s, pyval) svc"
  upgrade_plugin_with_marketplace :: "string \<Rightarrow> string \<Rightarrow> string \<Rightarrow> ('s, pyval) svc"
  upgrade_plugin_with_github ::
    "string \<Rightarrow> string \<Rightarrow> string \<Rightarrow> string \<Rightarrow> string \<Rightarrow> string \<Rightarrow> ('s, pyval) svc"
  uninstall :: "string \<Rightarrow> string \<Rightarrow> ('s, pyval) svc"

record 's PluginPermissionService =
  change_permission :: "string \<Rightarrow> InstallPermission \<Rightarrow> DebugPermission \<Rightarrow> ('s, bool) svc"
  get_permission :: "string \<Rightarrow> ('s, TenantPluginPermission option) svc"

record 's PluginParameterService =
  get_dynamic_select_options ::
    "string \<Rightarrow> string \<Rightarrow> string \<Rightarrow> string \<Rightarrow> string \<Rightarrow> string \<Rightarrow> string \<Rightarrow> ('s, pyval) svc"

record 's PluginAutoUpgradeService =
  change_strategy ::
    "string \<Rightarrow> StrategySetting \<Rightarrow> pyval \<Rightarrow> UpgradeMode \<Rightarrow> pyval \<Rightarrow> pyval \<Rightarrow> ('s, bool) svc"
  get_strategy :: "string \<Rightarrow> ('s, TenantPluginAutoUpgradeStrategy option) svc"
  exclude_plugin :: "string \<Rightarrow> string \<Rightarrow> ('s, pyval) svc"

text \<open>
  What the module imports. A decorator either lets the call through or raises; what it
  checks is decided outside the module.
\<close>

record 's env =
  config :: dify_config
  check :: "decorator \<Rightarrow> account \<Rightarrow> exn option"
  PluginService :: "'s PluginService"
  PluginPermissionService :: "'s PluginPermissionService"
  PluginParameterService :: "'s PluginParameterService"
  PluginAutoUpgradeService :: "'s PluginAutoUpgradeService"


subsection \<open>Helpers\<close>

text \<open>Decorators run in the order written, the first one that raises ends the call.\<close>

fun decorated :: "'s env \<Rightarrow> decorator list \<Rightarrow> account \<Rightarrow> ('s, 'a) prog \<Rightarrow> ('s, 'a) prog" where
  "decorated env [] user body = body"
| "decorated env (d # ds) user body =
     (case check env d user of
        Some e \<Rightarrow> raise e
      | None \<Rightarrow> decorated env ds user body)"

definition lift :: "exn + 'a \<Rightarrow> ('s, 'a) prog" where
  "lift r st = (r, st)"

text \<open>\<^verbatim>\<open>d.get(key, default)\<close> on a dictionary of the request.\<close>

definition dict_get :: "(string \<rightharpoonup> pyval) \<Rightarrow> string \<Rightarrow> pyval \<Rightarrow> pyval" where
  "dict_get d k dflt = (case d k of Some v \<Rightarrow> v | None \<Rightarrow> dflt)"

text \<open>\<^verbatim>\<open>d[key] = value\<close> on a dictionary the method built.\<close>

fun setitem :: "(string \<times> pyval) list \<Rightarrow> string \<Rightarrow> pyval \<Rightarrow> (string \<times> pyval) list" where
  "setitem [] k v = [(k, v)]"
| "setitem ((k', v') # d) k v = (if k' = k then (k, v) # d else (k', v') # setitem d k v)"

text \<open>\<^verbatim>\<open>isinstance(x, str)\<close>\<close>

fun isinstance_str :: "pyval \<Rightarrow> bool" where
  "isinstance_str (PStr _) = True"
| "isinstance_str _ = False"

text \<open>
  The loop
  \<^verbatim>\<open>for plugin_unique_identifier in args["plugin_unique_identifiers"]:
      if not isinstance(plugin_unique_identifier, str):
          raise ValueError("Invalid plugin unique identifier")\<close>
\<close>

fun check_plugin_unique_identifiers :: "pyval list \<Rightarrow> ('s, unit) prog" where
  "check_plugin_unique_identifiers [] = return ()"
| "check_plugin_unique_identifiers (plugin_unique_identifier # rest) =
     (if \<not> isinstance_str plugin_unique_identifier
      then raise (ValueError (Text ''Invalid plugin unique identifier''))
      else check_plugin_unique_identifiers rest)"

text \<open>
  Modelled from the spec: calling an enumeration class of \<^verbatim>\<open>models.account\<close> on a
  value gives the member with that value and raises \<^verbatim>\<open>ValueError\<close> when there is none.
\<close>

definition InstallPermission_of :: "pyval \<Rightarrow> exn + InstallPermission" where
  "InstallPermission_of v =
     (if v = PStr ''everyone'' then Inr InstallPermission_EVERYONE
      else if v = PStr ''admin_owner-only'' then Inr InstallPermission_ADMIN_OWNER_ONLY
      else if v = PStr ''noone'' then Inr InstallPermission_NOONE
      else Inl (ValueError (Not_a_valid v ''InstallPermission'')))"

definition DebugPermission_of :: "pyval \<Rightarrow> exn + DebugPermission" where
  "DebugPermission_of v =
     (if v = PStr ''everyone'' then Inr DebugPermission_EVERYONE
      else if v = PStr ''admin_owner-only'' then Inr DebugPermission_ADMIN_OWNER_ONLY
      else if v = PStr ''noone'' then Inr DebugPermission_NOONE
      else Inl (ValueError (Not_a_valid v ''DebugPermission'')))"

definition StrategySetting_of :: "pyval \<Rightarrow> exn + StrategySetting" where
  "StrategySetting_of v =
     (if v = PStr ''disabled'' then Inr StrategySetting_DISABLED
      else if v = PStr ''fix_only'' then Inr StrategySetting_FIX_ONLY
      else if v = PStr ''all'' then Inr StrategySetting_ALL
      else Inl (ValueError (Not_a_valid v ''StrategySetting'')))"

definition UpgradeMode_of :: "pyval \<Rightarrow> exn + UpgradeMode" where
  "UpgradeMode_of v =
     (if v = PStr ''exclude'' then Inr UpgradeMode_EXCLUDE
      else if v = PStr ''include'' then Inr UpgradeMode_INCLUDE
      else Inl (ValueError (Not_a_valid v ''UpgradeMode'')))"

subsection \<open>Calls of the services\<close>

definition call_get_debugging_key :: "'s env \<Rightarrow> string \<Rightarrow> ('s, pyval) prog" where
  "call_get_debugging_key env t =
     invoke (Get_debugging_key t) (get_debugging_key (PluginService env) t)"

definition call_list_with_total ::
  "'s env \<Rightarrow> string \<Rightarrow> int \<Rightarrow> int \<Rightarrow> ('s, plugins_with_total) prog" where
  "call_list_with_total env t p n =
     invoke (List_with_total t p n) (list_with_total (PluginService env) t p n)"

definition call_list_latest_versions :: "'s env \<Rightarrow> pyval list \<Rightarrow> ('s, pyval) prog" where
  "call_list_latest_versions env ids =
     invoke (List_latest_versions ids) (list_latest_versions (PluginService env) ids)"

definition call_list_installations_from_ids ::
  "'s env \<Rightarrow> string \<Rightarrow> pyval list \<Rightarrow> ('s, pyval) prog" where
  "call_list_installations_from_ids env t ids =
     invoke (List_installations_from_ids t ids)
       (list_installations_from_ids (PluginService env) t ids)"

definition call_get_asset :: "'s env \<Rightarrow> string \<Rightarrow> string \<Rightarrow> ('s, bytes \<times> string) prog" where
  "call_get_asset env t f = invoke (Get_asset t f) (get_asset (PluginService env) t f)"

definition call_upload_pkg :: "'s env \<Rightarrow> string \<Rightarrow> bytes \<Rightarrow> ('s, pyval) prog" where
  "call_upload_pkg env t c = invoke (Upload_pkg t c) (upload_pkg (PluginService env) t c)"

definition call_upload_pkg_from_github ::
  "'s env \<Rightarrow> string \<Rightarrow> string \<Rightarrow> string \<Rightarrow> string \<Rightarrow> ('s, pyval) prog" where
  "call_upload_pkg_from_github env t r v p =
     invoke (Upload_pkg_from_github t r v p) (upload_pkg_from_github (PluginService env) t r v p)"

definition call_upload_bundle :: "'s env \<Rightarrow> string \<Rightarrow> bytes \<Rightarrow> ('s, pyval) prog" where
  "call_upload_bundle env t c =
     invoke (Upload_bundle t c) (upload_bundle (PluginService env) t c)"

definition call_install_from_local_pkg ::
  "'s env \<Rightarrow> string \<Rightarrow> pyval list \<Rightarrow> ('s, pyval) prog" where
  "call_install_from_local_pkg env t ids =
     invoke (Install_from_local_pkg t ids) (install_from_local_pkg (PluginService env) t ids)"

definition call_install_from_github ::
  "'s env \<Rightarrow> string \<Rightarrow> string \<Rightarrow> string \<Rightarrow> string \<Rightarrow> string \<Rightarrow> ('s, pyval) prog" where
  "call_install_from_github env t i r v p =
     invoke (Install_from_github t i r v p) (install_from_github (PluginService env) t i r v p)"

definition call_install_from_marketplace_pkg ::
  "'s env \<Rightarrow> string \<Rightarrow> pyval list \<Rightarrow> ('s, pyval) prog" where
  "call_install_from_marketplace_pkg env t ids =
     invoke (Install_from_marketplace_pkg t ids)
       (install_from_marketplace_pkg (PluginService env) t ids)"

definition call_fetch_marketplace_pkg ::
  "'s env \<Rightarrow> string \<Rightarrow> string \<Rightarrow> ('s, pyval) prog" where
  "call_fetch_marketplace_pkg env t i =
     invoke (Fetch_marketplace_pkg t i) (fetch_marketplace_pkg (PluginService env) t i)"

definition call_fetch_plugin_manifest ::
  "'s env \<Rightarrow> string \<Rightarrow> string \<Rightarrow> ('s, plugin_declaration) prog" where
  "call_fetch_plugin_manifest env t i =
     invoke (Fetch_plugin_manifest t i) (fetch_plugin_manifest (PluginService env) t i)"

definition call_fetch_install_tasks ::
  "'s env \<Rightarrow> string \<Rightarrow> int \<Rightarrow> int \<Rightarrow> ('s, pyval) prog" where
  "call_fetch_install_tasks env t p n =
     invoke (Fetch_install_tasks t p n) (fetch_install_tasks (PluginService env) t p n)"

definition call_fetch_install_task :: "'s env \<Rightarrow> string \<Rightarrow> string \<Rightarrow> ('s, pyval) prog" where
  "call_fetch_install_task env t k =
     invoke (Fetch_install_task t k) (fetch_install_task (PluginService env) t k)"

definition call_delete_install_task :: "'s env \<Rightarrow> string \<Rightarrow> string \<Rightarrow> ('s, pyval) prog" where
  "call_delete_install_task env t k =
     invoke (Delete_install_task t k) (delete_install_task (PluginService env) t k)"

definition call_delete_all_install_task_items :: "'s env \<Rightarrow> string \<Rightarrow> ('s, pyval) prog" where
  "call_delete_all_install_task_items env t =
     invoke (Delete_all_install_task_items t) (delete_all_install_task_items (PluginService env) t)"

definition call_delete_install_task_item ::
  "'s env \<Rightarrow> string \<Rightarrow> string \<Rightarrow> string \<Rightarrow> ('s, pyval) prog" where
  "call_delete_install_task_item env t k i =
     invoke (Delete_install_task_item t k i) (delete_install_task_item (PluginService env) t k i)"

definition call_upgrade_plugin_with_marketplace ::
  "'s env \<Rightarrow> string \<Rightarrow> string \<Rightarrow> string \<Rightarrow> ('s, pyval) prog" where
  "call_upgrade_plugin_with_marketplace env t a b =
     invoke (Upgrade_plugin_with_marketplace t a b)
       (upgrade_plugin_with_marketplace (PluginService env) t a b)"

definition call_upgrade_plugin_with_github ::
  "'s env \<Rightarrow> string \<Rightarrow> string \<Rightarrow> string \<Rightarrow> string \<Rightarrow> string \<Rightarrow> string \<Rightarrow> ('s, pyval) prog" where
  "call_upgrade_plugin_with_github env t a b r v p =
     invoke (Upgrade_plugin_with_github t a b r v p)
       (upgrade_plugin_with_github (PluginService env) t a b r v p)"

definition call_uninstall :: "'s env \<Rightarrow> string \<Rightarrow> string \<Rightarrow> ('s, pyval) prog" where
  "call_uninstall env t i = invoke (Uninstall t i) (uninstall (PluginService env) t i)"

definition call_change_permission ::
  "'s env \<Rightarrow> string \<Rightarrow> InstallPermission \<Rightarrow> DebugPermission \<Rightarrow> ('s, bool) prog" where
  "call_change_permission env t i d =
     invoke (Change_permission t i d) (change_permission (PluginPermissionService env) t i d)"

definition call_get_permission ::
  "'s env \<Rightarrow> string \<Rightarrow> ('s, TenantPluginPermission option) prog" where
  "call_get_permission env t =
     invoke (Get_permission t) (get_permission (PluginPermissionService env) t)"

definition call_get_dynamic_select_options ::
  "'s env \<Rightarrow> string \<Rightarrow> string \<Rightarrow> string \<Rightarrow> string \<Rightarrow> string \<Rightarrow> string \<Rightarrow> string
     \<Rightarrow> ('s, pyval) prog" where
  "call_get_dynamic_select_options env t u i p a q y =
     invoke (Get_dynamic_select_options t u i p a q y)
       (get_dynamic_select_options (PluginParameterService env) t u i p a q y)"

definition call_change_strategy ::
  "'s env \<Rightarrow> string \<Rightarrow> StrategySetting \<Rightarrow> pyval \<Rightarrow> UpgradeMode \<Rightarrow> pyval \<Rightarrow> pyval
     \<Rightarrow> ('s, bool) prog" where
  "call_change_strategy env t s d m ex inc =
     invoke (Change_strategy t s d m ex inc)
       (change_strategy (PluginAutoUpgradeService env) t s d m ex inc)"

definition call_get_strategy ::
  "'s env \<Rightarrow> string \<Rightarrow> ('s, TenantPluginAutoUpgradeStrategy option) prog" where
  "call_get_strategy env t =
     invoke (Get_strategy t) (get_strategy (PluginAutoUpgradeService env) t)"

definition call_exclude_plugin :: "'s env \<Rightarrow> string \<Rightarrow> string \<Rightarrow> ('s, pyval) prog" where
  "call_exclude_plugin env t i =
     invoke (Exclude_plugin t i) (exclude_plugin (PluginAutoUpgradeService env) t i)"


subsection \<open>The resource methods\<close>

definition PluginDebuggingKeyApi_get :: "'s env \<Rightarrow> account \<Rightarrow> ('s, response) prog" where
  "PluginDebuggingKeyApi_get env current_user =
     decorated env
       [setup_required, login_required, account_initialization_required,
        plugin_permission_required False True] current_user
       (let tenant_id = current_tenant_id current_user in
        try_except
          (bind (call_get_debugging_key env tenant_id) (\<lambda>key.
           return (Returned_dict (PDict
             [(''key'', key),
              (''host'', PLUGIN_REMOTE_INSTALL_HOST (config env)),
              (''port'', PLUGIN_REMOTE_INSTALL_PORT (config env))])))))"

text \<open>\<open>page\<close> and \<open>page_size\<close> are optional, with the defaults 1 and 256.\<close>

definition PluginListApi_get ::
  "'s env \<Rightarrow> account \<Rightarrow> int option \<Rightarrow> int option \<Rightarrow> ('s, response) prog" where
  "PluginListApi_get env current_user page page_size =
     decorated env [setup_required, login_required, account_initialization_required] current_user
       (let tenant_id = current_tenant_id current_user;
            page = (case page of None \<Rightarrow> 1 | Some p \<Rightarrow> p);
            page_size = (case page_size of None \<Rightarrow> 256 | Some n \<Rightarrow> n)
        in bind (try_except (call_list_with_total env tenant_id page page_size))
             (\<lambda>plugins_with_total.
           return (Jsonable_encoder (PDict
             [(''plugins'', list plugins_with_total),
              (''total'', total plugins_with_total)]))))"

definition PluginListLatestVersionsApi_post ::
  "'s env \<Rightarrow> account \<Rightarrow> pyval list \<Rightarrow> ('s, response) prog" where
  "PluginListLatestVersionsApi_post env current_user plugin_ids =
     decorated env [setup_required, login_required, account_initialization_required] current_user
       (bind (try_except (call_list_latest_versions env plugin_ids)) (\<lambda>versions.
        return (Jsonable_encoder (PDict [(''versions'', versions)]))))"

definition PluginListInstallationsFromIdsApi_post ::
  "'s env \<Rightarrow> account \<Rightarrow> pyval list \<Rightarrow> ('s, response) prog" where
  "PluginListInstallationsFromIdsApi_post env current_user plugin_ids =
     decorated env [setup_required, login_required, account_initialization_required] current_user
       (let tenant_id = current_tenant_id current_user in
        bind (try_except (call_list_installations_from_ids env tenant_id plugin_ids))
          (\<lambda>plugins.
        return (Jsonable_encoder (PDict [(''plugins'', plugins)]))))"

definition PluginIconApi_get ::
  "'s env \<Rightarrow> account \<Rightarrow> string \<Rightarrow> string \<Rightarrow> ('s, response) prog" where
  "PluginIconApi_get env current_user tenant_id filename =
     decorated env [setup_required] current_user
       (bind (try_except (call_get_asset env tenant_id filename)) (\<lambda>(icon_bytes, mimetype).
        let icon_cache_max_age = TOOL_ICON_CACHE_MAX_AGE (config env) in
        return (Send_file icon_bytes mimetype icon_cache_max_age)))"

text \<open>\<^verbatim>\<open>request.files[name]\<close> raises when the request has no such file.\<close>

definition PluginUploadFromPkgApi_post ::
  "'s env \<Rightarrow> account \<Rightarrow> (string \<rightharpoonup> file_storage) \<Rightarrow> ('s, response) prog" where
  "PluginUploadFromPkgApi_post env current_user files =
     decorated env
       [setup_required, login_required, account_initialization_required,
        plugin_permission_required True False] current_user
       (let tenant_id = current_tenant_id current_user in
        case files ''pkg'' of
          None \<Rightarrow> raise (KeyError ''pkg'')
        | Some file \<Rightarrow>
            if content_length file > PLUGIN_MAX_PACKAGE_SIZE (config env)
            then raise (ValueError (Text ''File size exceeds the maximum allowed size''))
            else
              bind (read file) (\<lambda>content.
              bind (try_except (call_upload_pkg env tenant_id content)) (\<lambda>response.
              return (Jsonable_encoder response))))"

definition PluginUploadFromGithubApi_post ::
  "'s env \<Rightarrow> account \<Rightarrow> string \<Rightarrow> string \<Rightarrow> string \<Rightarrow> ('s, response) prog" where
  "PluginUploadFromGithubApi_post env current_user repo version package =
     decorated env
       [setup_required, login_required, account_initialization_required,
        plugin_permission_required True False] current_user
       (let tenant_id = current_tenant_id current_user in
        bind (try_except (call_upload_pkg_from_github env tenant_id repo version package))
          (\<lambda>response.
        return (Jsonable_encoder response)))"

definition PluginUploadFromBundleApi_post ::
  "'s env \<Rightarrow> account \<Rightarrow> (string \<rightharpoonup> file_storage) \<Rightarrow> ('s, response) prog" where
  "PluginUploadFromBundleApi_post env current_user files =
     decorated env
       [setup_required, login_required, account_initialization_required,
        plugin_permission_required True False] current_user
       (let tenant_id = current_tenant_id current_user in
        case files ''bundle'' of
          None \<Rightarrow> raise (KeyError ''bundle'')
        | Some file \<Rightarrow>
            if content_length file > PLUGIN_MAX_BUNDLE_SIZE (config env)
            then raise (ValueError (Text ''File size exceeds the maximum allowed size''))
            else
              bind (read file) (\<lambda>content.
              bind (try_except (call_upload_bundle env tenant_id content)) (\<lambda>response.
              return (Jsonable_encoder response))))"

definition PluginInstallFromPkgApi_post ::
  "'s env \<Rightarrow> account \<Rightarrow> pyval list \<Rightarrow> ('s, response) prog" where
  "PluginInstallFromPkgApi_post env current_user plugin_unique_identifiers =
     decorated env
       [setup_required, login_required, account_initialization_required,
        plugin_permission_required True False] current_user
       (let tenant_id = current_tenant_id current_user in
        bind (check_plugin_unique_identifiers plugin_unique_identifiers) (\<lambda>_.
        bind (try_except (call_install_from_local_pkg env tenant_id plugin_unique_identifiers))
          (\<lambda>response.
        return (Jsonable_encoder response))))"

definition PluginInstallFromGithubApi_post ::
  "'s env \<Rightarrow> account \<Rightarrow> string \<Rightarrow> string \<Rightarrow> string \<Rightarrow> string \<Rightarrow> ('s, response) prog" where
  "PluginInstallFromGithubApi_post env current_user repo version package
       plugin_unique_identifier =
     decorated env
       [setup_required, login_required, account_initialization_required,
        plugin_permission_required True False] current_user
       (let tenant_id = current_tenant_id current_user in
        bind (try_except
               (call_install_from_github env tenant_id plugin_unique_identifier repo version
                  package))
          (\<lambda>response.
        return (Jsonable_encoder response)))"

definition PluginInstallFromMarketplaceApi_post ::
  "'s env \<Rightarrow> account \<Rightarrow> pyval list \<Rightarrow> ('s, response) prog" where
  "PluginInstallFromMarketplaceApi_post env current_user plugin_unique_identifiers =
     decorated env
       [setup_required, login_required, account_initialization_required,
        plugin_permission_required True False] current_user
       (let tenant_id = current_tenant_id current_user in
        bind (check_plugin_unique_identifiers plugin_unique_identifiers) (\<lambda>_.
        bind (try_except
               (call_install_from_marketplace_pkg env tenant_id plugin_unique_identifiers))
          (\<lambda>response.
        return (Jsonable_encoder response))))"

definition PluginFetchMarketplacePkgApi_get ::
  "'s env \<Rightarrow> account \<Rightarrow> string \<Rightarrow> ('s, response) prog" where
  "PluginFetchMarketplacePkgApi_get env current_user plugin_unique_identifier =
     decorated env
       [setup_required, login_required, account_initialization_required,
        plugin_permission_required True False] current_user
       (let tenant_id = current_tenant_id current_user in
        try_except
          (bind (call_fetch_marketplace_pkg env tenant_id plugin_unique_identifier)
             (\<lambda>manifest.
           return (Jsonable_encoder (PDict [(''manifest'', manifest)])))))"

definition PluginFetchManifestApi_get ::
  "'s env \<Rightarrow> account \<Rightarrow> string \<Rightarrow> ('s, response) prog" where
  "PluginFetchManifestApi_get env current_user plugin_unique_identifier =
     decorated env
       [setup_required, login_required, account_initialization_required,
        plugin_permission_required True False] current_user
       (let tenant_id = current_tenant_id current_user in
        try_except
          (bind (call_fetch_plugin_manifest env tenant_id plugin_unique_identifier)
             (\<lambda>manifest.
           return (Jsonable_encoder (PDict [(''manifest'', model_dump manifest)])))))"

definition PluginFetchInstallTasksApi_get ::
  "'s env \<Rightarrow> account \<Rightarrow> int \<Rightarrow> int \<Rightarrow> ('s, response) prog" where
  "PluginFetchInstallTasksApi_get env current_user page page_size =
     decorated env
       [setup_required, login_required, account_initialization_required,
        plugin_permission_required True False] current_user
       (let tenant_id = current_tenant_id current_user in
        try_except
          (bind (call_fetch_install_tasks env tenant_id page page_size) (\<lambda>tasks.
           return (Jsonable_encoder (PDict [(''tasks'', tasks)])))))"

definition PluginFetchInstallTaskApi_get ::
  "'s env \<Rightarrow> account \<Rightarrow> string \<Rightarrow> ('s, response) prog" where
  "PluginFetchInstallTaskApi_get env current_user task_id =
     decorated env
       [setup_required, login_required, account_initialization_required,
        plugin_permission_required True False] current_user
       (let tenant_id = current_tenant_id current_user in
        try_except
          (bind (call_fetch_install_task env tenant_id task_id) (\<lambda>task.
           return (Jsonable_encoder (PDict [(''task'', task)])))))"

definition PluginDeleteInstallTaskApi_post ::
  "'s env \<Rightarrow> account \<Rightarrow> string \<Rightarrow> ('s, response) prog" where
  "PluginDeleteInstallTaskApi_post env current_user task_id =
     decorated env
       [setup_required, login_required, account_initialization_required,
        plugin_permission_required True False] current_user
       (let tenant_id = current_tenant_id current_user in
        try_except
          (bind (call_delete_install_task env tenant_id task_id) (\<lambda>success.
           return (Returned_dict (PDict [(''success'', success)])))))"

definition PluginDeleteAllInstallTaskItemsApi_post ::
  "'s env \<Rightarrow> account \<Rightarrow> ('s, response) prog" where
  "PluginDeleteAllInstallTaskItemsApi_post env current_user =
     decorated env
       [setup_required, login_required, account_initialization_required,
        plugin_permission_required True False] current_user
       (let tenant_id = current_tenant_id current_user in
        try_except
          (bind (call_delete_all_install_task_items env tenant_id) (\<lambda>success.
           return (Returned_dict (PDict [(''success'', success)])))))"

definition PluginDeleteInstallTaskItemApi_post ::
  "'s env \<Rightarrow> account \<Rightarrow> string \<Rightarrow> string \<Rightarrow> ('s, response) prog" where
  "PluginDeleteInstallTaskItemApi_post env current_user task_id identifier =
     decorated env
       [setup_required, login_required, account_initialization_required,
        plugin_permission_required True False] current_user
       (let tenant_id = current_tenant_id current_user in
        try_except
          (bind (call_delete_install_task_item env tenant_id task_id identifier) (\<lambda>success.
           return (Returned_dict (PDict [(''success'', success)])))))"

definition PluginUpgradeFromMarketplaceApi_post ::
  "'s env \<Rightarrow> account \<Rightarrow> string \<Rightarrow> string \<Rightarrow> ('s, response) prog" where
  "PluginUpgradeFromMarketplaceApi_post env current_user original_plugin_unique_identifier
       new_plugin_unique_identifier =
     decorated env
       [setup_required, login_required, account_initialization_required,
        plugin_permission_required True False] current_user
       (let tenant_id = current_tenant_id current_user in
        try_except
          (bind (call_upgrade_plugin_with_marketplace env tenant_id
                   original_plugin_unique_identifier new_plugin_unique_identifier)
             (\<lambda>response.
           return (Jsonable_encoder response))))"

definition PluginUpgradeFromGithubApi_post ::
  "'s env \<Rightarrow> account \<Rightarrow> string \<Rightarrow> string \<Rightarrow> string \<Rightarrow> string \<Rightarrow> string
     \<Rightarrow> ('s, response) prog" where
  "PluginUpgradeFromGithubApi_post env current_user original_plugin_unique_identifier
       new_plugin_unique_identifier repo version package =
     decorated env
       [setup_required, login_required, account_initialization_required,
        plugin_permission_required True False] current_user
       (let tenant_id = current_tenant_id current_user in
        try_except
          (bind (call_upgrade_plugin_with_github env tenant_id
                   original_plugin_unique_identifier new_plugin_unique_identifier
                   repo version package)
             (\<lambda>response.
           return (Jsonable_encoder response))))"

definition PluginUninstallApi_post ::
  "'s env \<Rightarrow> account \<Rightarrow> string \<Rightarrow> ('s, response) prog" where
  "PluginUninstallApi_post env current_user plugin_installation_id =
     decorated env
       [setup_required, login_required, account_initialization_required,
        plugin_permission_required True False] current_user
       (let tenant_id = current_tenant_id current_user in
        try_except
          (bind (call_uninstall env tenant_id plugin_installation_id) (\<lambda>success.
           return (Returned_dict (PDict [(''success'', success)])))))"

definition PluginChangePermissionApi_post ::
  "'s env \<Rightarrow> account \<Rightarrow> string \<Rightarrow> string \<Rightarrow> ('s, response) prog" where
  "PluginChangePermissionApi_post env current_user install_permission_arg
       debug_permission_arg =
     decorated env [setup_required, login_required, account_initialization_required] current_user
       (let user = current_user in
        if \<not> is_admin_or_owner user then raise Forbidden
        else
          bind (lift (InstallPermission_of (PStr install_permission_arg)))
            (\<lambda>install_permission.
          bind (lift (DebugPermission_of (PStr debug_permission_arg))) (\<lambda>debug_permission.
          let tenant_id = current_tenant_id user in
          bind (call_change_permission env tenant_id install_permission debug_permission)
            (\<lambda>success.
          return (Returned_dict (PDict [(''success'', PBool success)]))))))"

definition PluginFetchPermissionApi_get :: "'s env \<Rightarrow> account \<Rightarrow> ('s, response) prog" where
  "PluginFetchPermissionApi_get env current_user =
     decorated env [setup_required, login_required, account_initialization_required] current_user
       (let tenant_id = current_tenant_id current_user in
        bind (call_get_permission env tenant_id) (\<lambda>permission.
        case permission of
          None \<Rightarrow>
            return (Jsonable_encoder (PDict
              [(''install_permission'', PInstallPermission InstallPermission_EVERYONE),
               (''debug_permission'', PDebugPermission DebugPermission_EVERYONE)]))
        | Some permission \<Rightarrow>
            return (Jsonable_encoder (PDict
              [(''install_permission'', PInstallPermission (install_permission permission)),
               (''debug_permission'', PDebugPermission (debug_permission permission))]))))"

definition PluginFetchDynamicSelectOptionsApi_get ::
  "'s env \<Rightarrow> account \<Rightarrow> string \<Rightarrow> string \<Rightarrow> string \<Rightarrow> string \<Rightarrow> string
     \<Rightarrow> ('s, response) prog" where
  "PluginFetchDynamicSelectOptionsApi_get env current_user plugin_id provider action
       parameter provider_type =
     decorated env [setup_required, login_required, account_initialization_required] current_user
       (if \<not> is_admin_or_owner current_user then raise Forbidden
        else
          let tenant_id = current_tenant_id current_user;
              user_id = account_id current_user
          in bind (try_except
                    (call_get_dynamic_select_options env tenant_id user_id plugin_id provider
                       action parameter provider_type))
               (\<lambda>options.
             return (Jsonable_encoder (PDict [(''options'', options)]))))"

definition PluginChangePreferencesApi_post ::
  "'s env \<Rightarrow> account \<Rightarrow> (string \<rightharpoonup> pyval) \<Rightarrow> (string \<rightharpoonup> pyval) \<Rightarrow> ('s, response) prog" where
  "PluginChangePreferencesApi_post env current_user permission auto_upgrade =
     decorated env [setup_required, login_required, account_initialization_required] current_user
       (let user = current_user in
        if \<not> is_admin_or_owner user then raise Forbidden
        else
          let tenant_id = current_tenant_id user in
          bind (lift (InstallPermission_of
                  (dict_get permission ''install_permission'' (PStr ''everyone''))))
            (\<lambda>install_permission.
          bind (lift (DebugPermission_of
                  (dict_get permission ''debug_permission'' (PStr ''everyone''))))
            (\<lambda>debug_permission.
          bind (lift (StrategySetting_of
                  (dict_get auto_upgrade ''strategy_setting'' (PStr ''fix_only''))))
            (\<lambda>strategy_setting.
          let upgrade_time_of_day = dict_get auto_upgrade ''upgrade_time_of_day'' (PInt 0) in
          bind (lift (UpgradeMode_of
                  (dict_get auto_upgrade ''upgrade_mode'' (PStr ''exclude''))))
            (\<lambda>upgrade_mode.
          let exclude_plugins = dict_get auto_upgrade ''exclude_plugins'' (PList []);
              include_plugins = dict_get auto_upgrade ''include_plugins'' (PList [])
          in
          bind (call_change_permission env tenant_id install_permission debug_permission)
            (\<lambda>set_permission_result.
          if \<not> set_permission_result
          then return (Jsonable_encoder (PDict
                 [(''success'', PBool False), (''message'', PStr ''Failed to set permission'')]))
          else
            bind (call_change_strategy env tenant_id strategy_setting upgrade_time_of_day
                    upgrade_mode exclude_plugins include_plugins)
              (\<lambda>set_auto_upgrade_strategy_result.
            if \<not> set_auto_upgrade_strategy_result
            then return (Jsonable_encoder (PDict
                   [(''success'', PBool False),
                    (''message'', PStr ''Failed to set auto upgrade strategy'')]))
            else return (Jsonable_encoder (PDict [(''success'', PBool True)])))))))))"

definition PluginFetchPreferencesApi_get :: "'s env \<Rightarrow> account \<Rightarrow> ('s, response) prog" where
  "PluginFetchPreferencesApi_get env current_user =
     decorated env [setup_required, login_required, account_initialization_required] current_user
       (let tenant_id = current_tenant_id current_user in
        bind (call_get_permission env tenant_id) (\<lambda>permission.
        let permission_dict =
              [(''install_permission'', PInstallPermission InstallPermission_EVERYONE),
               (''debug_permission'', PDebugPermission DebugPermission_EVERYONE)];
            permission_dict =
              (case permission of
                 None \<Rightarrow> permission_dict
               | Some permission \<Rightarrow>
                   setitem
                     (setitem permission_dict ''install_permission''
                        (PInstallPermission (install_permission permission)))
                     ''debug_permission'' (PDebugPermission (debug_permission permission)))
        in
        bind (call_get_strategy env tenant_id) (\<lambda>auto_upgrade.
        let auto_upgrade_dict =
              [(''strategy_setting'', PStrategySetting StrategySetting_DISABLED),
               (''upgrade_time_of_day'', PInt 0),
               (''upgrade_mode'', PUpgradeMode UpgradeMode_EXCLUDE),
               (''exclude_plugins'', PList []),
               (''include_plugins'', PList [])];
            auto_upgrade_dict =
              (case auto_upgrade of
                 None \<Rightarrow> auto_upgrade_dict
               | Some auto_upgrade \<Rightarrow>
                   [(''strategy_setting'', PStrategySetting (strategy_setting auto_upgrade)),
                    (''upgrade_time_of_day'', upgrade_time_of_day auto_upgrade),
                    (''upgrade_mode'', PUpgradeMode (upgrade_mode auto_upgrade)),
                    (''exclude_plugins'', exclude_plugins auto_upgrade),
                    (''include_plugins'', include_plugins auto_upgrade)])
        in
        return (Jsonable_encoder (PDict
          [(''permission'', PDict permission_dict),
           (''auto_upgrade'', PDict auto_upgrade_dict)])))))"

definition PluginAutoUpgradeExcludePluginApi_post ::
  "'s env \<Rightarrow> account \<Rightarrow> string \<Rightarrow> ('s, response) prog" where
  "PluginAutoUpgradeExcludePluginApi_post env current_user plugin_id =
     decorated env [setup_required, login_required, account_initialization_required] current_user
       (let tenant_id = current_tenant_id current_user in
        bind (call_exclude_plugin env tenant_id plugin_id) (\<lambda>success.
        return (Jsonable_encoder (PDict [(''success'', success)]))))"


subsection \<open>Routing\<close>

text \<open>
  One request for every resource the module registers with \<^verbatim>\<open>api.add_resource\<close>, named
  by its class and HTTP method and carrying the parsed arguments.
\<close>

datatype request =
    PluginDebuggingKeyApi_GET
  | PluginListApi_GET "int option" "int option"
  | PluginListLatestVersionsApi_POST "pyval list"
  | PluginListInstallationsFromIdsApi_POST "pyval list"
  | PluginIconApi_GET string string
  | PluginUploadFromPkgApi_POST "string \<rightharpoonup> file_storage"
  | PluginUploadFromGithubApi_POST string string string
  | PluginUploadFromBundleApi_POST "string \<rightharpoonup> file_storage"
  | PluginInstallFromPkgApi_POST "pyval list"
  | PluginInstallFromGithubApi_POST string string string string
  | PluginUpgradeFromMarketplaceApi_POST string string
  | PluginUpgradeFromGithubApi_POST string string string string string
  | PluginInstallFromMarketplaceApi_POST "pyval list"
  | PluginFetchManifestApi_GET string
  | PluginFetchInstallTasksApi_GET int int
  | PluginFetchInstallTaskApi_GET string
  | PluginDeleteInstallTaskApi_POST string
  | PluginDeleteAllInstallTaskItemsApi_POST
  | PluginDeleteInstallTaskItemApi_POST string string
  | PluginUninstallApi_POST string
  | PluginFetchMarketplacePkgApi_GET string
  | PluginChangePermissionApi_POST string string
  | PluginFetchPermissionApi_GET
  | PluginFetchDynamicSelectOptionsApi_GET string string string string string
  | PluginFetchPreferencesApi_GET
  | PluginChangePreferencesApi_POST "string \<rightharpoonup> pyval" "string \<rightharpoonup> pyval"
  | PluginAutoUpgradeExcludePluginApi_POST string

fun dispatch :: "'s env \<Rightarrow> account \<Rightarrow> request \<Rightarrow> ('s, response) prog" where
  "dispatch env u PluginDebuggingKeyApi_GET = PluginDebuggingKeyApi_get env u"
| "dispatch env u (PluginListApi_GET page page_size) = PluginListApi_get env u page page_size"
| "dispatch env u (PluginListLatestVersionsApi_POST plugin_ids) =
     PluginListLatestVersionsApi_post env u plugin_ids"
| "dispatch env u (PluginListInstallationsFromIdsApi_POST plugin_ids) =
     PluginListInstallationsFromIdsApi_post env u plugin_ids"
| "dispatch env u (PluginIconApi_GET tenant_id filename) =
     PluginIconApi_get env u tenant_id filename"
| "dispatch env u (PluginUploadFromPkgApi_POST files) = PluginUploadFromPkgApi_post env u files"
| "dispatch env u (PluginUploadFromGithubApi_POST repo version package) =
     PluginUploadFromGithubApi_post env u repo version package"
| "dispatch env u (PluginUploadFromBundleApi_POST files) =
     PluginUploadFromBundleApi_post env u files"
| "dispatch env u (PluginInstallFromPkgApi_POST ids) = PluginInstallFromPkgApi_post env u ids"
| "dispatch env u (PluginInstallFromGithubApi_POST repo version package ident) =
     PluginInstallFromGithubApi_post env u repo version package ident"
| "dispatch env u (PluginUpgradeFromMarketplaceApi_POST original new) =
     PluginUpgradeFromMarketplaceApi_post env u original new"
| "dispatch env u (PluginUpgradeFromGithubApi_POST original new repo version package) =
     PluginUpgradeFromGithubApi_post env u original new repo version package"
| "dispatch env u (PluginInstallFromMarketplaceApi_POST ids) =
     PluginInstallFromMarketplaceApi_post env u ids"
| "dispatch env u (PluginFetchManifestApi_GET ident) = PluginFetchManifestApi_get env u ident"
| "dispatch env u (PluginFetchInstallTasksApi_GET page page_size) =
     PluginFetchInstallTasksApi_get env u page page_size"
| "dispatch env u (PluginFetchInstallTaskApi_GET task_id) =
     PluginFetchInstallTaskApi_get env u task_id"
| "dispatch env u (PluginDeleteInstallTaskApi_POST task_id) =
     PluginDeleteInstallTaskApi_post env u task_id"
| "dispatch env u PluginDeleteAllInstallTaskItemsApi_POST =
     PluginDeleteAllInstallTaskItemsApi_post env u"
| "dispatch env u (PluginDeleteInstallTaskItemApi_POST task_id ident) =
     PluginDeleteInstallTaskItemApi_post env u task_id ident"
| "dispatch env u (PluginUninstallApi_POST plugin_installation_id) =
     PluginUninstallApi_post env u plugin_installation_id"
| "dispatch env u (PluginFetchMarketplacePkgApi_GET ident) =
     PluginFetchMarketplacePkgApi_get env u ident"
| "dispatch env u (PluginChangePermissionApi_POST install debug) =
     PluginChangePermissionApi_post env u install debug"
| "dispatch env u PluginFetchPermissionApi_GET = PluginFetchPermissionApi_get env u"
| "dispatch env u (PluginFetchDynamicSelectOptionsApi_GET plugin_id provider action parameter
       provider_type) =
     PluginFetchDynamicSelectOptionsApi_get env u plugin_id provider action parameter
       provider_type"
| "dispatch env u PluginFetchPreferencesApi_GET = PluginFetchPreferencesApi_get env u"
| "dispatch env u (PluginChangePreferencesApi_POST permission auto_upgrade) =
     PluginChangePreferencesApi_post env u permission auto_upgrade"
| "dispatch env u (PluginAutoUpgradeExcludePluginApi_POST plugin_id) =
     PluginAutoUpgradeExcludePluginApi_post env u plugin_id"

text \<open>The class a called method belongs to.\<close>

datatype service =
    PluginService_class
  | PluginPermissionService_class
  | PluginParameterService_class
  | PluginAutoUpgradeService_class

fun service_of :: "call \<Rightarrow> service" where
  "service_of (Change_permission _ _ _) = PluginPermissionService_class"
| "service_of (Get_permission _) = PluginPermissionService_class"
| "service_of (Get_dynamic_select_options _ _ _ _ _ _ _) = PluginParameterService_class"
| "service_of (Change_strategy _ _ _ _ _ _) = PluginAutoUpgradeService_class"
| "service_of (Get_strategy _) = PluginAutoUpgradeService_class"
| "service_of (Exclude_plugin _ _) = PluginAutoUpgradeService_class"
| "service_of _ = PluginService_class"

subsection \<open>Notions used in the statements\<close>

text \<open>The decorators a caller passes.\<close>

definition passes :: "'s env \<Rightarrow> account \<Rightarrow> decorator list \<Rightarrow> bool" where
  "passes env u ds = list_all (\<lambda>d. check env d u = None) ds"

text \<open>A response that is an object with the given field.\<close>

fun has_field :: "string \<Rightarrow> exn + response \<Rightarrow> bool" where
  "has_field k (Inr (Jsonable_encoder (PDict items))) = (k \<in> set (map fst items))"
| "has_field k (Inr (Returned_dict (PDict items))) = (k \<in> set (map fst items))"
| "has_field k _ = False"

fun is_raise :: "event \<Rightarrow> bool" where
  "is_raise (Service _ (Raises _)) = True"
| "is_raise _ = False"

text \<open>
  The environment in which the permission service reports the stored record \<open>p\<close> for
  every tenant, and which is \<open>env\<close> in everything else.
\<close>

definition with_stored_permission :: "'s env \<Rightarrow> TenantPluginPermission \<Rightarrow> 's env" where
  "with_stored_permission env p =
     env\<lparr>PluginPermissionService :=
       (PluginPermissionService env)\<lparr>get_permission :=
         (\<lambda>t s. (Inr (Some p), snd (get_permission (PluginPermissionService env) t s)))\<rparr>\<rparr>"

subsection \<open>Notions used in the proofs\<close>

text \<open>
  A list of events and a result fit together when a service call that raised is the last
  event, nothing before it raised, and the result is the raised exception: as the
  \<^verbatim>\<open>except\<close> clause re-raises it, or unchanged where the call is one of the permission or
  auto-upgrade services, which the module calls outside any \<^verbatim>\<open>try\<close>.
\<close>

definition surfaced :: "event list \<Rightarrow> exn + 'a \<Rightarrow> bool" where
  "surfaced evs r \<longleftrightarrow>
     (\<forall>c x. Service c (Raises x) \<in> set evs \<longrightarrow>
        (\<exists>pre. evs = pre @ [Service c (Raises x)] \<and> (\<forall>ev\<in>set pre. \<not> is_raise ev)) \<and>
        (r = Inl (reraise x) \<or>
         (service_of c = PluginPermissionService_class \<or>
          service_of c = PluginAutoUpgradeService_class) \<and> r = Inl x))"

definition orderly :: "('s, 'a) prog \<Rightarrow> bool" where
  "orderly m \<longleftrightarrow>
     (\<forall>st. \<exists>evs. trace (snd (m st)) = trace st @ evs \<and> surfaced evs (fst (m st)))"

subsection \<open>A concrete environment\<close>

text \<open>
  Services that answer every call with a fixed outcome and count the calls they received;
  every decorator lets every caller through.
\<close>

definition fixed_plugin_service :: "exn + pyval \<Rightarrow> nat PluginService" where
  "fixed_plugin_service d =
     \<lparr>get_debugging_key = (\<lambda>_ n. (d, Suc n)),
      list_with_total =
        (\<lambda>_ _ _ n. (map_sum (\<lambda>e. e) (\<lambda>v. \<lparr>list = v, total = PInt 1\<rparr>) d, Suc n)),
      list_latest_versions = (\<lambda>_ n. (d, Suc n)),
      list_installations_from_ids = (\<lambda>_ _ n. (d, Suc n)),
      get_asset = (\<lambda>_ _ n. (map_sum (\<lambda>e. e) (\<lambda>v. ([137, 80, 78, 71], ''image/png'')) d, Suc n)),
      upload_pkg = (\<lambda>_ _ n. (d, Suc n)),
      upload_pkg_from_github = (\<lambda>_ _ _ _ n. (d, Suc n)),
      upload_bundle = (\<lambda>_ _ n. (d, Suc n)),
      install_from_local_pkg = (\<lambda>_ _ n. (d, Suc n)),
      install_from_github = (\<lambda>_ _ _ _ _ n. (d, Suc n)),
      install_from_marketplace_pkg = (\<lambda>_ _ n. (d, Suc n)),
      fetch_marketplace_pkg = (\<lambda>_ _ n. (d, Suc n)),
      fetch_plugin_manifest =
        (\<lambda>_ _ n. (map_sum (\<lambda>e. e) (\<lambda>v. \<lparr>model_dump = v\<rparr>) d, Suc n)),
      fetch_install_tasks = (\<lambda>_ _ _ n. (d, Suc n)),
      fetch_install_task = (\<lambda>_ _ n. (d, Suc n)),
      delete_install_task = (\<lambda>_ _ n. (d, Suc n)),
      delete_all_install_task_items = (\<lambda>_ n. (d, Suc n)),
      delete_install_task_item = (\<lambda>_ _ _ n. (d, Suc n)),
      upgrade_plugin_with_marketplace = (\<lambda>_ _ _ n. (d, Suc n)),
      upgrade_plugin_with_github = (\<lambda>_ _ _ _ _ _ n. (d, Suc n)),
      uninstall = (\<lambda>_ _ n. (d, Suc n))\<rparr>"

definition fixed_env ::
  "exn + pyval \<Rightarrow> bool \<Rightarrow> bool \<Rightarrow> TenantPluginPermission option
     \<Rightarrow> TenantPluginAutoUpgradeStrategy option \<Rightarrow> nat env" where
  "fixed_env d permission_changed strategy_changed stored_permission stored_strategy =
     \<lparr>config =
        \<lparr>PLUGIN_REMOTE_INSTALL_HOST = PStr ''localhost'',
         PLUGIN_REMOTE_INSTALL_PORT = PInt 5003,
         TOOL_ICON_CACHE_MAX_AGE = 3600,
         PLUGIN_MAX_PACKAGE_SIZE = 8,
         PLUGIN_MAX_BUNDLE_SIZE = 16\<rparr>,
      check = (\<lambda>_ _. None),
      PluginService = fixed_plugin_service d,
      PluginPermissionService =
        \<lparr>change_permission = (\<lambda>_ _ _ n. (Inr permission_changed, Suc n)),
         get_permission = (\<lambda>_ n. (Inr stored_permission, Suc n))\<rparr>,
      PluginParameterService =
        \<lparr>get_dynamic_select_options = (\<lambda>_ _ _ _ _ _ _ n. (d, Suc n))\<rparr>,
      PluginAutoUpgradeService =
        \<lparr>change_strategy = (\<lambda>_ _ _ _ _ _ n. (Inr strategy_changed, Suc n)),
         get_strategy = (\<lambda>_ n. (Inr stored_strategy, Suc n)),
         exclude_plugin = (\<lambda>_ _ n. (d, Suc n))\<rparr>\<rparr>"

definition member :: account where
  "member = \<lparr>account_id = ''u-2'', current_tenant_id = ''t-1'', is_admin_or_owner = False\<rparr>"

definition owner :: account where
  "owner = \<lparr>account_id = ''u-1'', current_tenant_id = ''t-1'', is_admin_or_owner = True\<rparr>"

definition start :: "nat state" where
  "start = \<lparr>trace = [], ext = 0\<rparr>"

section \<open>Properties\<close>

subsection \<open>Running the building blocks\<close>

lemmas prog_defs = return_def raise_def bind_def try_except_def invoke_def read_def lift_def

lemmas fixed_defs = fixed_env_def fixed_plugin_service_def member_def owner_def start_def passes_def

lemma decorated_passes:
  "passes env u ds \<Longrightarrow> decorated env ds u body = body"
  by (induction ds) (simp_all add: passes_def)

lemma decorated_run:
  "decorated env ds u body st = body st \<or> (\<exists>e. decorated env ds u body st = (Inl e, st))"
  by (induction ds) (auto simp: raise_def split: option.splits)

lemma decorated_error:
  "body st = (Inl e, st) \<Longrightarrow> \<exists>e'. decorated env ds u body st = (Inl e', st)"
  using decorated_run [of env ds u body st] by auto

lemma decorated_cong:
  "check env' = check env \<Longrightarrow> body st = body' st \<Longrightarrow>
   decorated env ds u body st = decorated env' ds u body' st"
  by (induction ds) (auto simp: raise_def split: option.splits)

lemma run_guarded_call:
  assumes "f (ext st) = (r, x)"
  shows "bind (try_except (invoke c f)) (\<lambda>v. return (g v)) st =
           (map_sum (\<lambda>e. e) g (reraised r),
            \<lparr>trace = trace st @ [Service c (outcome_of r)], ext = x\<rparr>)"
proof (cases "reraised r")
  case (Inl e)
  with assms show ?thesis by (simp add: prog_defs)
next
  case (Inr v)
  with assms show ?thesis by (simp add: prog_defs)
qed

lemma try_except_bind_return:
  "try_except (bind m (\<lambda>v. return (g v))) = bind (try_except m) (\<lambda>v. return (g v))"
proof
  fix st
  obtain r st' where m: "m st = (r, st')" by (cases "m st")
  show "try_except (bind m (\<lambda>v. return (g v))) st = bind (try_except m) (\<lambda>v. return (g v)) st"
  proof (cases r)
    case (Inl e)
    with m show ?thesis by (cases e) (simp_all add: prog_defs)
  next
    case (Inr v)
    with m show ?thesis by (simp add: prog_defs)
  qed
qed

lemma decorated_split:
  assumes "decorated env ds u body st = (r, st')"
  obtains (passed) "body st = (r, st')" | (stopped) e where "r = Inl e" and "st' = st"
  using assms decorated_run [of env ds u body st] by auto

lemma run_call_in_guard:
  assumes "f (ext st) = (r, x)"
  shows "try_except (bind (invoke c f) (\<lambda>v. return (g v))) st =
           (map_sum (\<lambda>e. e) g (reraised r),
            \<lparr>trace = trace st @ [Service c (outcome_of r)], ext = x\<rparr>)"
  using assms by (simp add: try_except_bind_return run_guarded_call)

subsection \<open>Uploads over the size limit\<close>

text \<open>
  What the size check of the two upload methods does. It compares the \<open>content_length\<close>
  the uploaded file declares with the configured maximum. A file declaring more ends the
  request in an error with the state untouched: it is not read and no service is called
  (for a caller the decorators let through, the error is the \<^verbatim>\<open>ValueError\<close> of the
  check). A file declaring no more, of a caller the decorators let through, is read and
  handed to \<open>upload_pkg\<close> or \<open>upload_bundle\<close>, whatever the length of its content.
\<close>

lemma declared_length_checked_first:
  "(files ''pkg'' = Some pkg \<and>
    content_length pkg > PLUGIN_MAX_PACKAGE_SIZE (config env) \<longrightarrow>
      (\<exists>e. PluginUploadFromPkgApi_post env u files st = (Inl e, st)) \<and>
      (passes env u [setup_required, login_required, account_initialization_required,
                     plugin_permission_required True False] \<longrightarrow>
       PluginUploadFromPkgApi_post env u files st =
         (Inl (ValueError (Text ''File size exceeds the maximum allowed size'')), st)))
   \<and> (files' ''bundle'' = Some bundle \<and>
      content_length bundle > PLUGIN_MAX_BUNDLE_SIZE (config env) \<longrightarrow>
      (\<exists>e. PluginUploadFromBundleApi_post env u files' st = (Inl e, st)) \<and>
      (passes env u [setup_required, login_required, account_initialization_required,
                     plugin_permission_required True False] \<longrightarrow>
       PluginUploadFromBundleApi_post env u files' st =
         (Inl (ValueError (Text ''File size exceeds the maximum allowed size'')), st)))
   \<and> (files ''pkg'' = Some pkg \<and>
      content_length pkg \<le> PLUGIN_MAX_PACKAGE_SIZE (config env) \<and>
      passes env u [setup_required, login_required, account_initialization_required,
                    plugin_permission_required True False] \<and>
      upload_pkg (PluginService env) (current_tenant_id u) (content pkg) (ext st) = (r, x)
      \<longrightarrow>
      PluginUploadFromPkgApi_post env u files st =
        (map_sum (\<lambda>e. e) Jsonable_encoder (reraised r),
         \<lparr>trace = trace st @
            [File_read pkg,
             Service (Upload_pkg (current_tenant_id u) (content pkg)) (outcome_of r)],
          ext = x\<rparr>))
   \<and> (files' ''bundle'' = Some bundle \<and>
      content_length bundle \<le> PLUGIN_MAX_BUNDLE_SIZE (config env) \<and>
      passes env u [setup_required, login_required, account_initialization_required,
                    plugin_permission_required True False] \<and>
      upload_bundle (PluginService env) (current_tenant_id u) (content bundle) (ext st)
        = (r', x')
      \<longrightarrow>
      PluginUploadFromBundleApi_post env u files' st =
        (map_sum (\<lambda>e. e) Jsonable_encoder (reraised r'),
         \<lparr>trace = trace st @
            [File_read bundle,
             Service (Upload_bundle (current_tenant_id u) (content bundle)) (outcome_of r')],
          ext = x'\<rparr>))"
proof -
  let ?ds = "[setup_required, login_required, account_initialization_required,
              plugin_permission_required True False]"
  let ?too_large = "ValueError (Text ''File size exceeds the maximum allowed size'')"
  have pkg_large:
    "PluginUploadFromPkgApi_post env u files st = decorated env ?ds u (raise ?too_large) st"
    if "files ''pkg'' = Some pkg" "content_length pkg > PLUGIN_MAX_PACKAGE_SIZE (config env)"
    using that by (simp add: PluginUploadFromPkgApi_post_def del: decorated.simps)
  have bundle_large:
    "PluginUploadFromBundleApi_post env u files' st = decorated env ?ds u (raise ?too_large) st"
    if "files' ''bundle'' = Some bundle"
      "content_length bundle > PLUGIN_MAX_BUNDLE_SIZE (config env)"
    using that by (simp add: PluginUploadFromBundleApi_post_def del: decorated.simps)
  have rejected: "\<exists>e. decorated env ?ds u (raise ?too_large) st = (Inl e, st)"
    by (rule decorated_error) (simp add: raise_def)
  have rejected_passes: "decorated env ?ds u (raise ?too_large) st = (Inl ?too_large, st)"
    if "passes env u ?ds"
    using that by (simp add: decorated_passes raise_def del: decorated.simps)
  have pkg_ok:
    "PluginUploadFromPkgApi_post env u files st =
       (map_sum (\<lambda>e. e) Jsonable_encoder (reraised r),
        \<lparr>trace = trace st @
           [File_read pkg,
            Service (Upload_pkg (current_tenant_id u) (content pkg)) (outcome_of r)],
         ext = x\<rparr>)"
    if "files ''pkg'' = Some pkg"
      "content_length pkg \<le> PLUGIN_MAX_PACKAGE_SIZE (config env)" "passes env u ?ds"
      "upload_pkg (PluginService env) (current_tenant_id u) (content pkg) (ext st) = (r, x)"
  proof -
    have "PluginUploadFromPkgApi_post env u files st =
            bind (try_except (invoke (Upload_pkg (current_tenant_id u) (content pkg))
                    (upload_pkg (PluginService env) (current_tenant_id u) (content pkg))))
              (\<lambda>v. return (Jsonable_encoder v)) (st\<lparr>trace := trace st @ [File_read pkg]\<rparr>)"
      using that(1,2,3)
      by (simp add: PluginUploadFromPkgApi_post_def decorated_passes call_upload_pkg_def
            Let_def read_def bind_def [of "read pkg"] del: decorated.simps)
    also have "\<dots> = (map_sum (\<lambda>e. e) Jsonable_encoder (reraised r),
        \<lparr>trace = trace st @
           [File_read pkg,
            Service (Upload_pkg (current_tenant_id u) (content pkg)) (outcome_of r)],
         ext = x\<rparr>)"
      using that(4) by (subst run_guarded_call [where r = r and x = x]) simp_all
    finally show ?thesis .
  qed
  have bundle_ok:
    "PluginUploadFromBundleApi_post env u files' st =
       (map_sum (\<lambda>e. e) Jsonable_encoder (reraised r'),
        \<lparr>trace = trace st @
           [File_read bundle,
            Service (Upload_bundle (current_tenant_id u) (content bundle)) (outcome_of r')],
         ext = x'\<rparr>)"
    if "files' ''bundle'' = Some bundle"
      "content_length bundle \<le> PLUGIN_MAX_BUNDLE_SIZE (config env)" "passes env u ?ds"
      "upload_bundle (PluginService env) (current_tenant_id u) (content bundle) (ext st)
         = (r', x')"
  proof -
    have "PluginUploadFromBundleApi_post env u files' st =
            bind (try_except (invoke (Upload_bundle (current_tenant_id u) (content bundle))
                    (upload_bundle (PluginService env) (current_tenant_id u) (content bundle))))
              (\<lambda>v. return (Jsonable_encoder v)) (st\<lparr>trace := trace st @ [File_read bundle]\<rparr>)"
      using that(1,2,3)
      by (simp add: PluginUploadFromBundleApi_post_def decorated_passes call_upload_bundle_def
            Let_def read_def bind_def [of "read bundle"] del: decorated.simps)
    also have "\<dots> = (map_sum (\<lambda>e. e) Jsonable_encoder (reraised r'),
        \<lparr>trace = trace st @
           [File_read bundle,
            Service (Upload_bundle (current_tenant_id u) (content bundle)) (outcome_of r')],
         ext = x'\<rparr>)"
      using that(4) by (subst run_guarded_call [where r = r' and x = x']) simp_all
    finally show ?thesis .
  qed
  show ?thesis
    using pkg_large bundle_large rejected rejected_passes pkg_ok bundle_ok
    by (intro conjI impI) (simp_all del: decorated.simps)
qed

text \<open>
  C2 fails on the code. The methods say they check the file size
  (\<^verbatim>\<open># check file size\<close>, \<^verbatim>\<open>"File size exceeds the maximum allowed size"\<close>), but what
  they compare with the maximum is the length the file declares, not the length of its
  content. A package of twelve bytes declaring length 0, with \<open>PLUGIN_MAX_PACKAGE_SIZE\<close> 8,
  is read in full and handed to \<open>upload_pkg\<close>, and the request succeeds; so is a bundle of
  twenty bytes declaring length 0, with \<open>PLUGIN_MAX_BUNDLE_SIZE\<close> 16.
\<close>

theorem oversized_upload_read_and_sent:
  "PLUGIN_MAX_PACKAGE_SIZE (config (fixed_env (Inr (PStr ''acme/foo@1.0.0'')) True True None None))
     < int (length [1, 2, 3, 4, 5, 6, 7, 8, 9, 10, 11, 12 :: 8 word])
   \<and> PluginUploadFromPkgApi_post (fixed_env (Inr (PStr ''acme/foo@1.0.0'')) True True None None)
       member
       [''pkg'' \<mapsto> \<lparr>content_length = 0,
                     content = [1, 2, 3, 4, 5, 6, 7, 8, 9, 10, 11, 12]\<rparr>] start =
     (Inr (Jsonable_encoder (PStr ''acme/foo@1.0.0'')),
      \<lparr>trace =
         [File_read \<lparr>content_length = 0, content = [1, 2, 3, 4, 5, 6, 7, 8, 9, 10, 11, 12]\<rparr>,
          Service (Upload_pkg ''t-1'' [1, 2, 3, 4, 5, 6, 7, 8, 9, 10, 11, 12]) Returns],
       ext = 1\<rparr>)
   \<and> PLUGIN_MAX_BUNDLE_SIZE (config (fixed_env (Inr (PStr ''acme/foo@1.0.0'')) True True None None))
     < int (length [1, 2, 3, 4, 5, 6, 7, 8, 9, 10, 11, 12, 13, 14, 15, 16, 17, 18, 19, 20 :: 8 word])
   \<and> PluginUploadFromBundleApi_post (fixed_env (Inr (PStr ''acme/foo@1.0.0'')) True True None None)
       member
       [''bundle'' \<mapsto> \<lparr>content_length = 0,
                        content = [1, 2, 3, 4, 5, 6, 7, 8, 9, 10, 11, 12, 13, 14, 15, 16, 17,
                                   18, 19, 20]\<rparr>] start =
     (Inr (Jsonable_encoder (PStr ''acme/foo@1.0.0'')),
      \<lparr>trace =
         [File_read \<lparr>content_length = 0,
                     content = [1, 2, 3, 4, 5, 6, 7, 8, 9, 10, 11, 12, 13, 14, 15, 16, 17,
                                18, 19, 20]\<rparr>,
          Service (Upload_bundle ''t-1''
                     [1, 2, 3, 4, 5, 6, 7, 8, 9, 10, 11, 12, 13, 14, 15, 16, 17, 18, 19, 20])
            Returns],
       ext = 1\<rparr>)"
  by (simp add: PluginUploadFromPkgApi_post_def PluginUploadFromBundleApi_post_def fixed_defs
        call_upload_pkg_def call_upload_bundle_def prog_defs Let_def)

subsection \<open>Totals of the list endpoints\<close>

text \<open>
  C1, as amended. For every \<open>page\<close> and \<open>page_size\<close> (given or defaulted), the plugin-list
  operation answers a successful service call with an object holding the plugin page under
  \<open>plugins\<close> and the count under \<open>total\<close>. The install-task-list operation answers with an
  object whose only field is \<open>tasks\<close>, the result of \<open>fetch_install_tasks\<close> as it is: it has
  no \<open>total\<close> field.
\<close>

theorem list_total_only_for_plugins:
  "(passes env u [setup_required, login_required, account_initialization_required] \<longrightarrow>
      (\<forall>p x. list_with_total (PluginService env) (current_tenant_id u)
                (case page of None \<Rightarrow> 1 | Some n \<Rightarrow> n)
                (case page_size of None \<Rightarrow> 256 | Some n \<Rightarrow> n) (ext st) = (Inr p, x) \<longrightarrow>
         fst (PluginListApi_get env u page page_size st) =
           Inr (Jsonable_encoder (PDict [(''plugins'', list p), (''total'', total p)]))))
   \<and> (passes env u [setup_required, login_required, account_initialization_required,
                     plugin_permission_required True False] \<longrightarrow>
      (\<forall>tasks x. fetch_install_tasks (PluginService env) (current_tenant_id u) task_page
                task_page_size (ext st) = (Inr tasks, x) \<longrightarrow>
         fst (PluginFetchInstallTasksApi_get env u task_page task_page_size st) =
           Inr (Jsonable_encoder (PDict [(''tasks'', tasks)])) \<and>
         \<not> has_field ''total''
             (fst (PluginFetchInstallTasksApi_get env u task_page task_page_size st))))"
proof (intro conjI impI allI)
  fix p x
  assume "passes env u [setup_required, login_required, account_initialization_required]"
    and "list_with_total (PluginService env) (current_tenant_id u)
           (case page of None \<Rightarrow> 1 | Some n \<Rightarrow> n)
           (case page_size of None \<Rightarrow> 256 | Some n \<Rightarrow> n) (ext st) = (Inr p, x)"
  then show "fst (PluginListApi_get env u page page_size st) =
           Inr (Jsonable_encoder (PDict [(''plugins'', list p), (''total'', total p)]))"
    by (simp add: PluginListApi_get_def decorated_passes call_list_with_total_def Let_def
          run_guarded_call del: decorated.simps)
next
  fix tasks x
  assume *: "passes env u [setup_required, login_required, account_initialization_required,
                     plugin_permission_required True False]"
    "fetch_install_tasks (PluginService env) (current_tenant_id u) task_page
                task_page_size (ext st) = (Inr tasks, x)"
  then show r: "fst (PluginFetchInstallTasksApi_get env u task_page task_page_size st) =
           Inr (Jsonable_encoder (PDict [(''tasks'', tasks)]))"
    by (simp add: PluginFetchInstallTasksApi_get_def decorated_passes
          call_fetch_install_tasks_def Let_def run_call_in_guard del: decorated.simps)
  show "\<not> has_field ''total''
             (fst (PluginFetchInstallTasksApi_get env u task_page task_page_size st))"
    by (simp add: r)
qed

theorem list_total_only_for_plugins_witness:
  "fst (PluginListApi_get (fixed_env (Inr (PList [PStr ''acme/foo''])) True True None None)
          member None (Some 10) start) =
     Inr (Jsonable_encoder (PDict [(''plugins'', PList [PStr ''acme/foo'']), (''total'', PInt 1)]))
   \<and> fst (PluginFetchInstallTasksApi_get
            (fixed_env (Inr (PList [PStr ''acme/foo''])) True True None None) member 1 10 start) =
     Inr (Jsonable_encoder (PDict [(''tasks'', PList [PStr ''acme/foo''])]))"
proof -
  let ?env = "fixed_env (Inr (PList [PStr ''acme/foo''])) True True None None"
  have p1: "passes ?env member [setup_required, login_required, account_initialization_required]"
    and p2: "passes ?env member [setup_required, login_required,
               account_initialization_required, plugin_permission_required True False]"
    and l: "list_with_total (PluginService ?env) (current_tenant_id member) 1 10 (ext start) =
              (Inr \<lparr>list = PList [PStr ''acme/foo''], total = PInt 1\<rparr>, 1)"
    and t: "fetch_install_tasks (PluginService ?env) (current_tenant_id member) 1 10 (ext start) =
              (Inr (PList [PStr ''acme/foo'']), 1)"
    by (simp_all add: fixed_defs)
  note inst = list_total_only_for_plugins [where env = "?env" and u = member and st = start
      and page = None and page_size = "Some 10" and task_page = 1 and task_page_size = 10]
  show ?thesis
    using inst p1 p2 l t by simp
qed

text \<open>
  C1 as stated fails: a successful install-task-list request whose response has no
  \<open>total\<close> field.
\<close>

theorem install_tasks_total_counterexample:
  "fst (PluginFetchInstallTasksApi_get
          (fixed_env (Inr (PList [PStr ''acme/foo''])) True True None None) owner 1 10 start) =
     Inr (Jsonable_encoder (PDict [(''tasks'', PList [PStr ''acme/foo''])]))
   \<and> \<not> has_field ''total''
        (fst (PluginFetchInstallTasksApi_get
               (fixed_env (Inr (PList [PStr ''acme/foo''])) True True None None) owner 1 10 start))"
  by (simp add: PluginFetchInstallTasksApi_get_def fixed_defs call_fetch_install_tasks_def
        prog_defs Let_def)

subsection \<open>Asset retrieval\<close>

text \<open>
  C7. A request for an asset that passes \<open>setup_required\<close> and whose \<open>get_asset\<close> call
  returns bytes and a mimetype is answered by sending exactly these bytes with exactly this
  mimetype and with \<open>max_age\<close> equal to the configured \<open>TOOL_ICON_CACHE_MAX_AGE\<close>; the
  service is called once.
\<close>

theorem icon_served_with_configured_max_age:
  assumes "passes env u [setup_required]"
    and "get_asset (PluginService env) tenant_id filename (ext st) = (Inr (icon_bytes, mimetype), x)"
  shows "PluginIconApi_get env u tenant_id filename st =
           (Inr (Send_file icon_bytes mimetype (TOOL_ICON_CACHE_MAX_AGE (config env))),
            \<lparr>trace = trace st @ [Service (Get_asset tenant_id filename) Returns], ext = x\<rparr>)"
  using assms
  by (simp add: PluginIconApi_get_def decorated_passes call_get_asset_def prog_defs Let_def
        del: decorated.simps)

theorem icon_served_with_configured_max_age_witness:
  "PluginIconApi_get (fixed_env (Inr PNone) True True None None) member ''t-1'' ''icon.png'' start =
     (Inr (Send_file [137, 80, 78, 71] ''image/png'' 3600),
      \<lparr>trace = [Service (Get_asset ''t-1'' ''icon.png'') Returns], ext = 1\<rparr>)"
proof -
  let ?env = "fixed_env (Inr PNone) True True None None"
  have p: "passes ?env member [setup_required]"
    and a: "get_asset (PluginService ?env) ''t-1'' ''icon.png'' (ext start) =
              (Inr ([137, 80, 78, 71], ''image/png''), 1)"
    and c: "TOOL_ICON_CACHE_MAX_AGE (config ?env) = 3600"
    and s: "trace start = []"
    by (simp_all add: fixed_defs)
  show ?thesis
    using icon_served_with_configured_max_age [OF p a] by (simp add: c s)
qed

subsection \<open>Identifiers that are not strings\<close>

lemma check_plugin_unique_identifiers_run:
  "check_plugin_unique_identifiers ids st =
     (if list_all isinstance_str ids then (Inr (), st)
      else (Inl (ValueError (Text ''Invalid plugin unique identifier'')), st))"
  by (induction ids) (simp_all add: return_def raise_def)

text \<open>
  C3, as amended. What both batch install methods check of an element of
  \<open>plugin_unique_identifiers\<close> is that it is an instance of \<^verbatim>\<open>str\<close>. A list with an
  element that is not a string ends the request in an error with the state untouched: no
  service is called for any identifier (for a caller the decorators let through, the error
  is the \<^verbatim>\<open>ValueError\<close> of the check). A list of strings of a caller the decorators let
  through is handed as it is to \<open>install_from_local_pkg\<close> or
  \<open>install_from_marketplace_pkg\<close>, whose outcome is the outcome of the request: the
  methods do not look into the strings.
\<close>

theorem non_string_identifier_rejected:
  "((\<exists>x\<in>set ids. \<not> isinstance_str x) \<longrightarrow>
      (\<exists>e. PluginInstallFromPkgApi_post env u ids st = (Inl e, st)) \<and>
      (\<exists>e. PluginInstallFromMarketplaceApi_post env u ids st = (Inl e, st)) \<and>
      (passes env u [setup_required, login_required, account_initialization_required,
                     plugin_permission_required True False] \<longrightarrow>
         PluginInstallFromPkgApi_post env u ids st =
           (Inl (ValueError (Text ''Invalid plugin unique identifier'')), st) \<and>
         PluginInstallFromMarketplaceApi_post env u ids st =
           (Inl (ValueError (Text ''Invalid plugin unique identifier'')), st)))
   \<and> ((\<forall>x\<in>set ids. isinstance_str x) \<and>
      passes env u [setup_required, login_required, account_initialization_required,
                    plugin_permission_required True False] \<longrightarrow>
      (install_from_local_pkg (PluginService env) (current_tenant_id u) ids (ext st) = (r, x)
       \<longrightarrow>
       PluginInstallFromPkgApi_post env u ids st =
         (map_sum (\<lambda>e. e) Jsonable_encoder (reraised r),
          \<lparr>trace = trace st @
             [Service (Install_from_local_pkg (current_tenant_id u) ids) (outcome_of r)],
           ext = x\<rparr>)) \<and>
      (install_from_marketplace_pkg (PluginService env) (current_tenant_id u) ids (ext st)
         = (r', x') \<longrightarrow>
       PluginInstallFromMarketplaceApi_post env u ids st =
         (map_sum (\<lambda>e. e) Jsonable_encoder (reraised r'),
          \<lparr>trace = trace st @
             [Service (Install_from_marketplace_pkg (current_tenant_id u) ids)
                (outcome_of r')],
           ext = x'\<rparr>)))"
proof -
  let ?ds = "[setup_required, login_required, account_initialization_required,
              plugin_permission_required True False]"
  let ?invalid = "ValueError (Text ''Invalid plugin unique identifier'')"
  have pkg: "PluginInstallFromPkgApi_post env u ids st = decorated env ?ds u (raise ?invalid) st"
    and market:
      "PluginInstallFromMarketplaceApi_post env u ids st =
         decorated env ?ds u (raise ?invalid) st"
    if "\<exists>x\<in>set ids. \<not> isinstance_str x"
  proof -
    from that have bad: "\<not> list_all isinstance_str ids"
      by (auto simp: list_all_iff)
    show "PluginInstallFromPkgApi_post env u ids st = decorated env ?ds u (raise ?invalid) st"
      unfolding PluginInstallFromPkgApi_post_def Let_def
      by (rule decorated_cong)
         (simp_all add: bind_def raise_def check_plugin_unique_identifiers_run bad)
    show "PluginInstallFromMarketplaceApi_post env u ids st =
            decorated env ?ds u (raise ?invalid) st"
      unfolding PluginInstallFromMarketplaceApi_post_def Let_def
      by (rule decorated_cong)
         (simp_all add: bind_def raise_def check_plugin_unique_identifiers_run bad)
  qed
  have rejected: "\<exists>e. decorated env ?ds u (raise ?invalid) st = (Inl e, st)"
    by (rule decorated_error) (simp add: raise_def)
  have rejected_passes: "decorated env ?ds u (raise ?invalid) st = (Inl ?invalid, st)"
    if "passes env u ?ds"
    using that by (simp add: decorated_passes raise_def del: decorated.simps)
  have pkg_ok:
    "PluginInstallFromPkgApi_post env u ids st =
       (map_sum (\<lambda>e. e) Jsonable_encoder (reraised r),
        \<lparr>trace = trace st @
           [Service (Install_from_local_pkg (current_tenant_id u) ids) (outcome_of r)],
         ext = x\<rparr>)"
    if "\<forall>x\<in>set ids. isinstance_str x" "passes env u ?ds"
      "install_from_local_pkg (PluginService env) (current_tenant_id u) ids (ext st) = (r, x)"
  proof -
    from that(1) have good: "list_all isinstance_str ids"
      by (simp add: list_all_iff)
    have "PluginInstallFromPkgApi_post env u ids st =
            bind (try_except (invoke (Install_from_local_pkg (current_tenant_id u) ids)
                    (install_from_local_pkg (PluginService env) (current_tenant_id u) ids)))
              (\<lambda>v. return (Jsonable_encoder v)) st"
      using that(2) good
      by (simp add: PluginInstallFromPkgApi_post_def decorated_passes
            call_install_from_local_pkg_def Let_def check_plugin_unique_identifiers_run
            bind_def [of "check_plugin_unique_identifiers ids"] del: decorated.simps)
    also have "\<dots> = (map_sum (\<lambda>e. e) Jsonable_encoder (reraised r),
        \<lparr>trace = trace st @
           [Service (Install_from_local_pkg (current_tenant_id u) ids) (outcome_of r)],
         ext = x\<rparr>)"
      using that(3) by (rule run_guarded_call)
    finally show ?thesis .
  qed
  have market_ok:
    "PluginInstallFromMarketplaceApi_post env u ids st =
       (map_sum (\<lambda>e. e) Jsonable_encoder (reraised r'),
        \<lparr>trace = trace st @
           [Service (Install_from_marketplace_pkg (current_tenant_id u) ids) (outcome_of r')],
         ext = x'\<rparr>)"
    if "\<forall>x\<in>set ids. isinstance_str x" "passes env u ?ds"
      "install_from_marketplace_pkg (PluginService env) (current_tenant_id u) ids (ext st)
         = (r', x')"
  proof -
    from that(1) have good: "list_all isinstance_str ids"
      by (simp add: list_all_iff)
    have "PluginInstallFromMarketplaceApi_post env u ids st =
            bind (try_except (invoke (Install_from_marketplace_pkg (current_tenant_id u) ids)
                    (install_from_marketplace_pkg (PluginService env) (current_tenant_id u)
                       ids)))
              (\<lambda>v. return (Jsonable_encoder v)) st"
      using that(2) good
      by (simp add: PluginInstallFromMarketplaceApi_post_def decorated_passes
            call_install_from_marketplace_pkg_def Let_def check_plugin_unique_identifiers_run
            bind_def [of "check_plugin_unique_identifiers ids"] del: decorated.simps)
    also have "\<dots> = (map_sum (\<lambda>e. e) Jsonable_encoder (reraised r'),
        \<lparr>trace = trace st @
           [Service (Install_from_marketplace_pkg (current_tenant_id u) ids) (outcome_of r')],
         ext = x'\<rparr>)"
      using that(3) by (rule run_guarded_call)
    finally show ?thesis .
  qed
  show ?thesis
    using pkg market rejected rejected_passes pkg_ok market_ok
    by (intro conjI impI) (simp_all del: decorated.simps)
qed

theorem non_string_identifier_rejected_witness:
  "PluginInstallFromPkgApi_post (fixed_env (Inr (PStr ''task-1'')) True True None None) member
     [PStr ''acme/foo@1.0.0'', PInt 7] start =
     (Inl (ValueError (Text ''Invalid plugin unique identifier'')), start)
   \<and> PluginInstallFromMarketplaceApi_post (fixed_env (Inr (PStr ''task-1'')) True True None None)
       member [PStr ''acme/foo@1.0.0'', PInt 7] start =
     (Inl (ValueError (Text ''Invalid plugin unique identifier'')), start)
   \<and> PluginInstallFromPkgApi_post (fixed_env (Inr (PStr ''task-1'')) True True None None) member
       [PStr ''acme/foo@1.0.0'', PStr ''acme/bar@2.1.0''] start =
     (Inr (Jsonable_encoder (PStr ''task-1'')),
      \<lparr>trace = [Service (Install_from_local_pkg ''t-1''
                          [PStr ''acme/foo@1.0.0'', PStr ''acme/bar@2.1.0'']) Returns],
       ext = 1\<rparr>)
   \<and> PluginInstallFromMarketplaceApi_post (fixed_env (Inr (PStr ''task-1'')) True True None None)
       member [PStr ''acme/foo@1.0.0'', PStr ''acme/bar@2.1.0''] start =
     (Inr (Jsonable_encoder (PStr ''task-1'')),
      \<lparr>trace = [Service (Install_from_marketplace_pkg ''t-1''
                          [PStr ''acme/foo@1.0.0'', PStr ''acme/bar@2.1.0'']) Returns],
       ext = 1\<rparr>)"
proof -
  let ?env = "fixed_env (Inr (PStr ''task-1'')) True True None None"
  let ?bad = "[PStr ''acme/foo@1.0.0'', PInt 7]"
  let ?good = "[PStr ''acme/foo@1.0.0'', PStr ''acme/bar@2.1.0'']"
  have bad: "\<exists>x\<in>set ?bad. \<not> isinstance_str x"
    and good: "\<forall>x\<in>set ?good. isinstance_str x"
    by simp_all
  have p: "passes ?env member [setup_required, login_required,
             account_initialization_required, plugin_permission_required True False]"
    and local: "install_from_local_pkg (PluginService ?env) (current_tenant_id member) ?good
                  (ext start) = (Inr (PStr ''task-1''), 1)"
    and market: "install_from_marketplace_pkg (PluginService ?env) (current_tenant_id member)
                   ?good (ext start) = (Inr (PStr ''task-1''), 1)"
    and t: "trace start = []" "current_tenant_id member = ''t-1''"
    by (simp_all add: fixed_defs)
  note rejected = non_string_identifier_rejected [where env = "?env" and u = member
      and st = start and ids = "?bad", THEN conjunct1]
  note accepted = non_string_identifier_rejected [where env = "?env" and u = member
      and st = start and ids = "?good" and r = "Inr (PStr ''task-1'')" and x = 1
      and r' = "Inr (PStr ''task-1'')" and x' = 1, THEN conjunct2]
  have c12: "PluginInstallFromPkgApi_post ?env member ?bad start =
       (Inl (ValueError (Text ''Invalid plugin unique identifier'')), start)
     \<and> PluginInstallFromMarketplaceApi_post ?env member ?bad start =
       (Inl (ValueError (Text ''Invalid plugin unique identifier'')), start)"
    using rejected bad p by blast
  have c34: "PluginInstallFromPkgApi_post ?env member ?good start =
       (Inr (Jsonable_encoder (PStr ''task-1'')),
        \<lparr>trace = [Service (Install_from_local_pkg ''t-1'' ?good) Returns], ext = 1\<rparr>)
     \<and> PluginInstallFromMarketplaceApi_post ?env member ?good start =
       (Inr (Jsonable_encoder (PStr ''task-1'')),
        \<lparr>trace = [Service (Install_from_marketplace_pkg ''t-1'' ?good) Returns], ext = 1\<rparr>)"
    using accepted good p local market by (simp add: t)
  show ?thesis
    using c12 c34 by simp
qed

text \<open>
  C3 as stated fails: the empty string and the string \<open>not an identifier\<close> name no vendor,
  plugin and version, yet the batch install from local packages and the one from the
  marketplace hand the list to the service and the request succeeds.
\<close>

theorem malformed_identifier_counterexample:
  "PluginInstallFromPkgApi_post (fixed_env (Inr (PStr ''task-1'')) True True None None) member
     [PStr [], PStr ''not an identifier''] start =
     (Inr (Jsonable_encoder (PStr ''task-1'')),
      \<lparr>trace = [Service (Install_from_local_pkg ''t-1'' [PStr [], PStr ''not an identifier''])
                  Returns],
       ext = 1\<rparr>)
   \<and> PluginInstallFromMarketplaceApi_post (fixed_env (Inr (PStr ''task-1'')) True True None None)
       member [PStr [], PStr ''not an identifier''] start =
     (Inr (Jsonable_encoder (PStr ''task-1'')),
      \<lparr>trace = [Service (Install_from_marketplace_pkg ''t-1''
                          [PStr [], PStr ''not an identifier'']) Returns],
       ext = 1\<rparr>)"
  by (simp add: PluginInstallFromPkgApi_post_def PluginInstallFromMarketplaceApi_post_def
        fixed_defs call_install_from_local_pkg_def call_install_from_marketplace_pkg_def
        prog_defs Let_def)

subsection \<open>Defaults of the stored preferences\<close>

text \<open>
  C5. When the tenant has no stored auto-upgrade strategy (\<open>get_strategy\<close> returns
  \<^verbatim>\<open>None\<close>), the preferences-fetch operation reports \<open>strategy_setting\<close> disabled,
  \<open>upgrade_time_of_day\<close> 0, \<open>upgrade_mode\<close> exclude and empty \<open>exclude_plugins\<close> and
  \<open>include_plugins\<close>.
\<close>

theorem absent_strategy_defaults:
  assumes "passes env u [setup_required, login_required, account_initialization_required]"
    and "get_permission (PluginPermissionService env) (current_tenant_id u) (ext st) = (Inr p, x)"
    and "get_strategy (PluginAutoUpgradeService env) (current_tenant_id u) x = (Inr None, y)"
  shows "PluginFetchPreferencesApi_get env u st =
           (Inr (Jsonable_encoder (PDict
              [(''permission'', PDict
                  [(''install_permission'', PInstallPermission
                      (case p of None \<Rightarrow> InstallPermission_EVERYONE
                       | Some q \<Rightarrow> install_permission q)),
                   (''debug_permission'', PDebugPermission
                      (case p of None \<Rightarrow> DebugPermission_EVERYONE
                       | Some q \<Rightarrow> debug_permission q))]),
               (''auto_upgrade'', PDict
                  [(''strategy_setting'', PStrategySetting StrategySetting_DISABLED),
                   (''upgrade_time_of_day'', PInt 0),
                   (''upgrade_mode'', PUpgradeMode UpgradeMode_EXCLUDE),
                   (''exclude_plugins'', PList []),
                   (''include_plugins'', PList [])])])),
            \<lparr>trace = trace st @
               [Service (Get_permission (current_tenant_id u)) Returns,
                Service (Get_strategy (current_tenant_id u)) Returns],
             ext = y\<rparr>)"
  using assms
  by (cases p)
     (simp_all add: PluginFetchPreferencesApi_get_def decorated_passes call_get_permission_def
        call_get_strategy_def prog_defs Let_def del: decorated.simps)

theorem absent_strategy_defaults_witness:
  "PluginFetchPreferencesApi_get (fixed_env (Inr PNone) True True None None) member start =
           (Inr (Jsonable_encoder (PDict
              [(''permission'', PDict
                  [(''install_permission'', PInstallPermission InstallPermission_EVERYONE),
                   (''debug_permission'', PDebugPermission DebugPermission_EVERYONE)]),
               (''auto_upgrade'', PDict
                  [(''strategy_setting'', PStrategySetting StrategySetting_DISABLED),
                   (''upgrade_time_of_day'', PInt 0),
                   (''upgrade_mode'', PUpgradeMode UpgradeMode_EXCLUDE),
                   (''exclude_plugins'', PList []),
                   (''include_plugins'', PList [])])])),
            \<lparr>trace = [Service (Get_permission ''t-1'') Returns,
                      Service (Get_strategy ''t-1'') Returns],
             ext = 2\<rparr>)"
proof -
  let ?env = "fixed_env (Inr PNone) True True None None"
  have p: "passes ?env member [setup_required, login_required, account_initialization_required]"
    and g: "get_permission (PluginPermissionService ?env) (current_tenant_id member) (ext start)
              = (Inr None, 1)"
    and s: "get_strategy (PluginAutoUpgradeService ?env) (current_tenant_id member) 1
              = (Inr None, 2)"
    and t: "trace start = []" "current_tenant_id member = ''t-1''"
    by (simp_all add: fixed_defs)
  show ?thesis
    using absent_strategy_defaults [OF p g s] by (simp add: t)
qed

subsection \<open>An absent permission record\<close>

lemma with_stored_permission_simps:
  "check (with_stored_permission env p) = check env"
  "config (with_stored_permission env p) = config env"
  "PluginAutoUpgradeService (with_stored_permission env p) = PluginAutoUpgradeService env"
  "get_permission (PluginPermissionService (with_stored_permission env p)) t s =
     (Inr (Some p), snd (get_permission (PluginPermissionService env) t s))"
  by (simp_all add: with_stored_permission_def)

text \<open>
  C4. For a tenant whose permission record is absent, both operations that fetch the
  permission (the permission-fetch operation and the preferences-fetch operation) give
  exactly the result, and leave exactly the state, they give when the permission service
  reports the explicit record with \<open>install_permission\<close> and \<open>debug_permission\<close> everyone.
\<close>

theorem absent_permission_as_everyone:
  assumes "get_permission (PluginPermissionService env) (current_tenant_id u) (ext st)
             = (Inr None, x)"
  shows "PluginFetchPermissionApi_get env u st =
           PluginFetchPermissionApi_get
             (with_stored_permission env
                \<lparr>install_permission = InstallPermission_EVERYONE,
                 debug_permission = DebugPermission_EVERYONE\<rparr>) u st
       \<and> PluginFetchPreferencesApi_get env u st =
           PluginFetchPreferencesApi_get
             (with_stored_permission env
                \<lparr>install_permission = InstallPermission_EVERYONE,
                 debug_permission = DebugPermission_EVERYONE\<rparr>) u st"
proof
  let ?env' = "with_stored_permission env
                \<lparr>install_permission = InstallPermission_EVERYONE,
                 debug_permission = DebugPermission_EVERYONE\<rparr>"
  show "PluginFetchPermissionApi_get env u st = PluginFetchPermissionApi_get ?env' u st"
    unfolding PluginFetchPermissionApi_get_def Let_def
    by (rule decorated_cong)
       (simp_all add: with_stored_permission_simps assms call_get_permission_def prog_defs)
  show "PluginFetchPreferencesApi_get env u st = PluginFetchPreferencesApi_get ?env' u st"
    unfolding PluginFetchPreferencesApi_get_def Let_def
    by (rule decorated_cong)
       (simp_all add: with_stored_permission_simps assms call_get_permission_def
          call_get_strategy_def prog_defs)
qed

theorem absent_permission_as_everyone_witness:
  "PluginFetchPermissionApi_get (fixed_env (Inr PNone) True True None None) member start =
     (Inr (Jsonable_encoder (PDict
        [(''install_permission'', PInstallPermission InstallPermission_EVERYONE),
         (''debug_permission'', PDebugPermission DebugPermission_EVERYONE)])),
      \<lparr>trace = [Service (Get_permission ''t-1'') Returns], ext = 1\<rparr>)
   \<and> PluginFetchPermissionApi_get (fixed_env (Inr PNone) True True None None) member start =
       PluginFetchPermissionApi_get
         (with_stored_permission (fixed_env (Inr PNone) True True None None)
            \<lparr>install_permission = InstallPermission_EVERYONE,
             debug_permission = DebugPermission_EVERYONE\<rparr>) member start
   \<and> PluginFetchPreferencesApi_get (fixed_env (Inr PNone) True True None None) member start =
       PluginFetchPreferencesApi_get
         (with_stored_permission (fixed_env (Inr PNone) True True None None)
            \<lparr>install_permission = InstallPermission_EVERYONE,
             debug_permission = DebugPermission_EVERYONE\<rparr>) member start"
proof -
  let ?env = "fixed_env (Inr PNone) True True None None"
  have g: "get_permission (PluginPermissionService ?env) (current_tenant_id member) (ext start)
             = (Inr None, 1)"
    by (simp add: fixed_defs)
  have r: "PluginFetchPermissionApi_get ?env member start =
     (Inr (Jsonable_encoder (PDict
        [(''install_permission'', PInstallPermission InstallPermission_EVERYONE),
         (''debug_permission'', PDebugPermission DebugPermission_EVERYONE)])),
      \<lparr>trace = [Service (Get_permission ''t-1'') Returns], ext = 1\<rparr>)"
    by (simp add: PluginFetchPermissionApi_get_def fixed_defs call_get_permission_def prog_defs)
  show ?thesis
    using absent_permission_as_everyone [OF g] r by simp
qed

subsection \<open>Changing the preferences\<close>

lemmas call_defs =
  call_change_permission_def call_change_strategy_def call_exclude_plugin_def
  call_get_permission_def call_get_strategy_def

lemma change_preferences_events:
  assumes run: "PluginChangePreferencesApi_post env u permission auto_upgrade st = (r, st')"
    and evs: "trace st' = trace st @ evs"
    and ev: "Service (Change_strategy t ss tod um ex inc) oc \<in> set evs"
  shows "\<exists>ip dp x. evs = [Service (Change_permission t ip dp) Returns,
                            Service (Change_strategy t ss tod um ex inc) oc]
           \<and> change_permission (PluginPermissionService env) t ip dp (ext st) = (Inr True, x)"
  using run unfolding PluginChangePreferencesApi_post_def
proof (cases rule: decorated_split)
  case stopped
  with evs ev show ?thesis by simp
next
  case passed
  with evs ev show ?thesis
    by (auto simp: prog_defs call_defs Let_def split: if_splits sum.splits prod.splits)
qed

text \<open>
  C8. In the combined preferences-change operation of an admin or owner, when
  \<open>change_permission\<close> reports failure the response is the object with \<open>success\<close> false
  (and the message that the permission could not be set), the only service call of the
  request is that \<open>change_permission\<close> call, and the state behind the services is the one
  this call left: \<open>change_strategy\<close> is never called, so nothing touches the stored
  strategy. Conversely, in every run of the operation in which \<open>change_strategy\<close> is
  called, it is the second service call of the request and the first one is a
  \<open>change_permission\<close> call that returned true.
\<close>

theorem strategy_only_after_permission:
  "(passes env u [setup_required, login_required, account_initialization_required] \<and>
    is_admin_or_owner u \<and>
    InstallPermission_of (dict_get permission ''install_permission'' (PStr ''everyone''))
      = Inr ip \<and>
    DebugPermission_of (dict_get permission ''debug_permission'' (PStr ''everyone''))
      = Inr dp \<and>
    StrategySetting_of (dict_get auto_upgrade ''strategy_setting'' (PStr ''fix_only''))
      = Inr ss \<and>
    UpgradeMode_of (dict_get auto_upgrade ''upgrade_mode'' (PStr ''exclude'')) = Inr um \<and>
    change_permission (PluginPermissionService env) (current_tenant_id u) ip dp (ext st)
      = (Inr False, x) \<longrightarrow>
    PluginChangePreferencesApi_post env u permission auto_upgrade st =
      (Inr (Jsonable_encoder (PDict
         [(''success'', PBool False), (''message'', PStr ''Failed to set permission'')])),
       \<lparr>trace = trace st @ [Service (Change_permission (current_tenant_id u) ip dp) Returns],
        ext = x\<rparr>))
   \<and> (PluginChangePreferencesApi_post env u permission auto_upgrade st = (r, st') \<and>
        trace st' = trace st @ evs \<and>
        Service (Change_strategy t s tod m ex inc) oc \<in> set evs \<longrightarrow>
        (\<exists>i d y. evs = [Service (Change_permission t i d) Returns,
                         Service (Change_strategy t s tod m ex inc) oc] \<and>
           change_permission (PluginPermissionService env) t i d (ext st) = (Inr True, y)))"
proof (intro conjI impI)
  assume "passes env u [setup_required, login_required, account_initialization_required] \<and>
    is_admin_or_owner u \<and>
    InstallPermission_of (dict_get permission ''install_permission'' (PStr ''everyone''))
      = Inr ip \<and>
    DebugPermission_of (dict_get permission ''debug_permission'' (PStr ''everyone''))
      = Inr dp \<and>
    StrategySetting_of (dict_get auto_upgrade ''strategy_setting'' (PStr ''fix_only''))
      = Inr ss \<and>
    UpgradeMode_of (dict_get auto_upgrade ''upgrade_mode'' (PStr ''exclude'')) = Inr um \<and>
    change_permission (PluginPermissionService env) (current_tenant_id u) ip dp (ext st)
      = (Inr False, x)"
  then show "PluginChangePreferencesApi_post env u permission auto_upgrade st =
      (Inr (Jsonable_encoder (PDict
         [(''success'', PBool False), (''message'', PStr ''Failed to set permission'')])),
       \<lparr>trace = trace st @ [Service (Change_permission (current_tenant_id u) ip dp) Returns],
        ext = x\<rparr>)"
    by (simp add: PluginChangePreferencesApi_post_def decorated_passes prog_defs call_defs
          Let_def del: decorated.simps)
next
  assume "PluginChangePreferencesApi_post env u permission auto_upgrade st = (r, st') \<and>
        trace st' = trace st @ evs \<and>
        Service (Change_strategy t s tod m ex inc) oc \<in> set evs"
  then show "\<exists>i d y. evs = [Service (Change_permission t i d) Returns,
                         Service (Change_strategy t s tod m ex inc) oc] \<and>
           change_permission (PluginPermissionService env) t i d (ext st) = (Inr True, y)"
    using change_preferences_events by blast
qed

theorem strategy_only_after_permission_witness:
  "PluginChangePreferencesApi_post (fixed_env (Inr PNone) False True None None) owner
     [''install_permission'' \<mapsto> PStr ''noone''] [''strategy_setting'' \<mapsto> PStr ''all''] start =
     (Inr (Jsonable_encoder (PDict
        [(''success'', PBool False), (''message'', PStr ''Failed to set permission'')])),
      \<lparr>trace = [Service (Change_permission ''t-1'' InstallPermission_NOONE
                          DebugPermission_EVERYONE) Returns],
       ext = 1\<rparr>)
   \<and> (PluginChangePreferencesApi_post (fixed_env (Inr PNone) True False None None) owner
        [''install_permission'' \<mapsto> PStr ''noone''] [''strategy_setting'' \<mapsto> PStr ''all''] start =
        (Inr (Jsonable_encoder (PDict
           [(''success'', PBool False),
            (''message'', PStr ''Failed to set auto upgrade strategy'')])),
         \<lparr>trace = [Service (Change_permission ''t-1'' InstallPermission_NOONE
                             DebugPermission_EVERYONE) Returns,
                   Service (Change_strategy ''t-1'' StrategySetting_ALL (PInt 0)
                             UpgradeMode_EXCLUDE (PList []) (PList [])) Returns],
          ext = 2\<rparr>)
      \<and> (\<exists>y. change_permission (PluginPermissionService (fixed_env (Inr PNone) True False None None))
              ''t-1'' InstallPermission_NOONE DebugPermission_EVERYONE (ext start)
            = (Inr True, y)))"
proof -
  let ?failing = "fixed_env (Inr PNone) False True None None"
  let ?env = "fixed_env (Inr PNone) True False None None"
  let ?p = "[''install_permission'' \<mapsto> PStr ''noone'']"
  let ?a = "[''strategy_setting'' \<mapsto> PStr ''all'']"
  have h: "passes ?failing owner [setup_required, login_required, account_initialization_required] \<and>
    is_admin_or_owner owner \<and>
    InstallPermission_of (dict_get ?p ''install_permission'' (PStr ''everyone''))
      = Inr InstallPermission_NOONE \<and>
    DebugPermission_of (dict_get ?p ''debug_permission'' (PStr ''everyone''))
      = Inr DebugPermission_EVERYONE \<and>
    StrategySetting_of (dict_get ?a ''strategy_setting'' (PStr ''fix_only''))
      = Inr StrategySetting_ALL \<and>
    UpgradeMode_of (dict_get ?a ''upgrade_mode'' (PStr ''exclude'')) = Inr UpgradeMode_EXCLUDE \<and>
    change_permission (PluginPermissionService ?failing) (current_tenant_id owner)
      InstallPermission_NOONE DebugPermission_EVERYONE (ext start) = (Inr False, 1)"
    by (simp add: fixed_defs dict_get_def InstallPermission_of_def DebugPermission_of_def
          StrategySetting_of_def UpgradeMode_of_def)
  have t: "trace start = []" "current_tenant_id owner = ''t-1''"
    by (simp_all add: fixed_defs)
  have first: "PluginChangePreferencesApi_post ?failing owner ?p ?a start =
     (Inr (Jsonable_encoder (PDict
        [(''success'', PBool False), (''message'', PStr ''Failed to set permission'')])),
      \<lparr>trace = [Service (Change_permission ''t-1'' InstallPermission_NOONE
                          DebugPermission_EVERYONE) Returns],
       ext = 1\<rparr>)"
    using strategy_only_after_permission [where env = "?failing" and u = owner
        and permission = "?p" and auto_upgrade = "?a" and st = start
        and ip = InstallPermission_NOONE and dp = DebugPermission_EVERYONE
        and ss = StrategySetting_ALL and um = UpgradeMode_EXCLUDE and x = 1] h
    by (simp add: t)
  have run: "PluginChangePreferencesApi_post ?env owner ?p ?a start =
        (Inr (Jsonable_encoder (PDict
           [(''success'', PBool False),
            (''message'', PStr ''Failed to set auto upgrade strategy'')])),
         \<lparr>trace = [Service (Change_permission ''t-1'' InstallPermission_NOONE
                             DebugPermission_EVERYONE) Returns,
                   Service (Change_strategy ''t-1'' StrategySetting_ALL (PInt 0)
                             UpgradeMode_EXCLUDE (PList []) (PList [])) Returns],
          ext = 2\<rparr>)"
    by (simp add: PluginChangePreferencesApi_post_def fixed_defs prog_defs call_defs Let_def
          dict_get_def InstallPermission_of_def DebugPermission_of_def
          StrategySetting_of_def UpgradeMode_of_def)
  have second: "\<exists>y. change_permission (PluginPermissionService ?env)
              ''t-1'' InstallPermission_NOONE DebugPermission_EVERYONE (ext start)
            = (Inr True, y)"
    using strategy_only_after_permission [where env = "?env" and u = owner
        and permission = "?p" and auto_upgrade = "?a" and st = start
        and t = "''t-1''" and s = StrategySetting_ALL and tod = "PInt 0"
        and m = UpgradeMode_EXCLUDE and ex = "PList []" and inc = "PList []" and oc = Returns
        and evs = "[Service (Change_permission ''t-1'' InstallPermission_NOONE
                             DebugPermission_EVERYONE) Returns,
                   Service (Change_strategy ''t-1'' StrategySetting_ALL (PInt 0)
                             UpgradeMode_EXCLUDE (PList []) (PList [])) Returns]"] run
    by (fastforce simp: t)
  show ?thesis
    using first run second by (intro conjI)
qed

subsection \<open>Defaults of a preferences change\<close>





subsection \<open>Who may change what\<close>

text \<open>
  C10. For a caller who is not an admin or owner, the permission-change and the
  preferences-change operations end in an error with the state untouched, and for such a
  caller whom the decorators let through (set up, logged in, account initialized) the error
  is \<^verbatim>\<open>Forbidden\<close>. The exclude-plugin operation of every caller whom the decorators let
  through, admin or owner or not, calls \<open>exclude_plugin\<close> for the caller's tenant and
  answers with its result: no role is checked.
\<close>

theorem role_check_on_changes_only:
  "(\<not> is_admin_or_owner u \<longrightarrow>
      (\<exists>e. PluginChangePermissionApi_post env u install debug st = (Inl e, st)) \<and>
      (\<exists>e. PluginChangePreferencesApi_post env u permission auto_upgrade st = (Inl e, st)) \<and>
      (passes env u [setup_required, login_required, account_initialization_required] \<longrightarrow>
         PluginChangePermissionApi_post env u install debug st = (Inl Forbidden, st) \<and>
         PluginChangePreferencesApi_post env u permission auto_upgrade st
           = (Inl Forbidden, st)))
   \<and> (passes env w [setup_required, login_required, account_initialization_required] \<and>
      exclude_plugin (PluginAutoUpgradeService env) (current_tenant_id w) plugin_id (ext st)
        = (r, x) \<longrightarrow>
      PluginAutoUpgradeExcludePluginApi_post env w plugin_id st =
        (map_sum (\<lambda>e. e) (\<lambda>success. Jsonable_encoder (PDict [(''success'', success)])) r,
         \<lparr>trace = trace st @
            [Service (Exclude_plugin (current_tenant_id w) plugin_id) (outcome_of r)],
          ext = x\<rparr>))"
proof -
  let ?ds = "[setup_required, login_required, account_initialization_required]"
  have permission:
    "PluginChangePermissionApi_post env u install debug st =
       decorated env ?ds u (raise Forbidden) st"
    if "\<not> is_admin_or_owner u"
    unfolding PluginChangePermissionApi_post_def Let_def
    by (rule decorated_cong) (simp_all add: that)
  have preferences:
    "PluginChangePreferencesApi_post env u permission auto_upgrade st =
       decorated env ?ds u (raise Forbidden) st"
    if "\<not> is_admin_or_owner u"
    unfolding PluginChangePreferencesApi_post_def Let_def
    by (rule decorated_cong) (simp_all add: that)
  have rejected: "\<exists>e. decorated env ?ds u (raise Forbidden) st = (Inl e, st)"
    by (rule decorated_error) (simp add: raise_def)
  have forbidden: "decorated env ?ds u (raise Forbidden) st = (Inl Forbidden, st)"
    if "passes env u ?ds"
    using that by (simp add: decorated_passes raise_def del: decorated.simps)
  have exclude: "PluginAutoUpgradeExcludePluginApi_post env w plugin_id st =
                 (map_sum (\<lambda>e. e) (\<lambda>success. Jsonable_encoder (PDict [(''success'', success)])) r,
                  \<lparr>trace = trace st @
                     [Service (Exclude_plugin (current_tenant_id w) plugin_id) (outcome_of r)],
                   ext = x\<rparr>)"
    if "passes env w ?ds"
      and "exclude_plugin (PluginAutoUpgradeService env) (current_tenant_id w)
                      plugin_id (ext st) = (r, x)"
    using that
    by (cases r)
       (simp_all add: PluginAutoUpgradeExcludePluginApi_post_def decorated_passes prog_defs
          call_defs Let_def del: decorated.simps)
  show ?thesis
    using permission preferences rejected forbidden exclude
    by (intro conjI impI) (simp_all del: decorated.simps)
qed

theorem role_check_on_changes_only_witness:
  "PluginChangePermissionApi_post (fixed_env (Inr (PBool True)) True True None None) member
     ''noone'' ''noone'' start = (Inl Forbidden, start)
   \<and> PluginChangePreferencesApi_post (fixed_env (Inr (PBool True)) True True None None) member
       Map.empty Map.empty start = (Inl Forbidden, start)
   \<and> PluginAutoUpgradeExcludePluginApi_post (fixed_env (Inr (PBool True)) True True None None)
       member ''acme/foo'' start =
       (Inr (Jsonable_encoder (PDict [(''success'', PBool True)])),
        \<lparr>trace = [Service (Exclude_plugin ''t-1'' ''acme/foo'') Returns], ext = 1\<rparr>)
   \<and> PluginAutoUpgradeExcludePluginApi_post (fixed_env (Inr (PBool True)) True True None None)
       owner ''acme/foo'' start =
       (Inr (Jsonable_encoder (PDict [(''success'', PBool True)])),
        \<lparr>trace = [Service (Exclude_plugin ''t-1'' ''acme/foo'') Returns], ext = 1\<rparr>)"
proof -
  let ?env = "fixed_env (Inr (PBool True)) True True None None"
  have m: "\<not> is_admin_or_owner member"
    and pm: "passes ?env member [setup_required, login_required, account_initialization_required]"
    and po: "passes ?env owner [setup_required, login_required, account_initialization_required]"
    and em: "exclude_plugin (PluginAutoUpgradeService ?env) (current_tenant_id member)
              ''acme/foo'' (ext start) = (Inr (PBool True), 1)"
    and eo: "exclude_plugin (PluginAutoUpgradeService ?env) (current_tenant_id owner)
              ''acme/foo'' (ext start) = (Inr (PBool True), 1)"
    and t: "trace start = []" "current_tenant_id member = ''t-1''"
      "current_tenant_id owner = ''t-1''"
    by (simp_all add: fixed_defs)
  note as_member = role_check_on_changes_only [where env = "?env" and st = start
      and u = member and w = member and install = "''noone''" and debug = "''noone''"
      and permission = Map.empty and auto_upgrade = Map.empty and plugin_id = "''acme/foo''"
      and r = "Inr (PBool True)" and x = 1]
  note as_owner = role_check_on_changes_only [where env = "?env" and st = start
      and u = member and w = owner and install = "''noone''" and debug = "''noone''"
      and permission = Map.empty and auto_upgrade = Map.empty and plugin_id = "''acme/foo''"
      and r = "Inr (PBool True)" and x = 1, THEN conjunct2]
  have c12: "PluginChangePermissionApi_post ?env member ''noone'' ''noone'' start
               = (Inl Forbidden, start)
     \<and> PluginChangePreferencesApi_post ?env member Map.empty Map.empty start
               = (Inl Forbidden, start)"
    using as_member m pm by blast
  have c3: "PluginAutoUpgradeExcludePluginApi_post ?env member ''acme/foo'' start =
       (Inr (Jsonable_encoder (PDict [(''success'', PBool True)])),
        \<lparr>trace = [Service (Exclude_plugin ''t-1'' ''acme/foo'') Returns], ext = 1\<rparr>)"
    using as_member pm em by (simp add: t)
  have c4: "PluginAutoUpgradeExcludePluginApi_post ?env owner ''acme/foo'' start =
       (Inr (Jsonable_encoder (PDict [(''success'', PBool True)])),
        \<lparr>trace = [Service (Exclude_plugin ''t-1'' ''acme/foo'') Returns], ext = 1\<rparr>)"
    using as_owner po eo by (simp add: t)
  show ?thesis
    using c12 c3 c4 by simp
qed

subsection \<open>Errors of the daemon\<close>

lemma is_raise_iff: "is_raise ev \<longleftrightarrow> (\<exists>c x. ev = Service c (Raises x))"
  by (cases ev rule: is_raise.cases) simp_all

lemma surfaced_no_raise: "\<forall>ev\<in>set evs. \<not> is_raise ev \<Longrightarrow> surfaced evs r"
  by (auto simp: surfaced_def is_raise_iff)

lemma surfaced_Inr: "surfaced evs (Inr v) \<Longrightarrow> \<forall>ev\<in>set evs. \<not> is_raise ev"
  by (auto simp: surfaced_def is_raise_iff)

lemma surfaced_Inl: "surfaced evs (Inl e :: exn + 'a) \<Longrightarrow> surfaced evs (Inl e :: exn + 'b)"
  by (simp add: surfaced_def)

lemma surfaced_append:
  assumes "\<forall>ev\<in>set evs1. \<not> is_raise ev" and "surfaced evs2 r"
  shows "surfaced (evs1 @ evs2) r"
  unfolding surfaced_def
proof (intro allI impI)
  fix c x
  assume "Service c (Raises x) \<in> set (evs1 @ evs2)"
  with assms(1) have in2: "Service c (Raises x) \<in> set evs2"
    by (auto simp: is_raise_iff)
  with assms(2) obtain pre where pre: "evs2 = pre @ [Service c (Raises x)]"
      "\<forall>ev\<in>set pre. \<not> is_raise ev"
    and r: "r = Inl (reraise x) \<or>
         (service_of c = PluginPermissionService_class \<or>
          service_of c = PluginAutoUpgradeService_class) \<and> r = Inl x"
    unfolding surfaced_def by blast
  from pre assms(1) have "evs1 @ evs2 = (evs1 @ pre) @ [Service c (Raises x)]"
    "\<forall>ev\<in>set (evs1 @ pre). \<not> is_raise ev"
    by auto
  with r show "(\<exists>pre. evs1 @ evs2 = pre @ [Service c (Raises x)] \<and>
                 (\<forall>ev\<in>set pre. \<not> is_raise ev)) \<and>
        (r = Inl (reraise x) \<or>
         (service_of c = PluginPermissionService_class \<or>
          service_of c = PluginAutoUpgradeService_class) \<and> r = Inl x)"
    by blast
qed

lemma orderlyI:
  assumes "\<And>st. \<exists>evs. trace (snd (m st)) = trace st @ evs \<and> surfaced evs (fst (m st))"
  shows "orderly m"
  using assms by (simp add: orderly_def)

lemma orderlyE:
  assumes "orderly m" and "m st = (r, st')"
  obtains evs where "trace st' = trace st @ evs" and "surfaced evs r"
  using assms unfolding orderly_def by (metis fst_conv snd_conv)

lemma orderly_return: "orderly (return x)"
  by (rule orderlyI) (simp add: return_def surfaced_no_raise)

lemma orderly_raise: "orderly (raise e)"
  by (rule orderlyI) (simp add: raise_def surfaced_no_raise)

lemma orderly_lift: "orderly (lift r)"
  by (rule orderlyI) (simp add: lift_def surfaced_no_raise)

lemma orderly_read: "orderly (read file)"
  by (rule orderlyI) (simp add: read_def surfaced_no_raise)

lemma surfaced_single:
  assumes "\<And>x. oc = Raises x \<Longrightarrow>
     r = Inl (reraise x) \<or>
     (service_of c = PluginPermissionService_class \<or>
      service_of c = PluginAutoUpgradeService_class) \<and> r = Inl x"
  shows "surfaced [Service c oc] r"
  using assms by (auto simp: surfaced_def)

lemma orderly_invoke:
  assumes "service_of c = PluginPermissionService_class \<or>
           service_of c = PluginAutoUpgradeService_class"
  shows "orderly (invoke c (f :: ('s, 'a) svc))"
proof (rule orderlyI)
  fix st :: "'s state"
  obtain r x where f: "f (ext st) = (r, x)" by (cases "f (ext st)")
  have "surfaced [Service c (outcome_of r)] r"
    by (rule surfaced_single) (use assms in \<open>cases r; simp\<close>)
  with f show "\<exists>evs. trace (snd (invoke c f st)) = trace st @ evs \<and>
                 surfaced evs (fst (invoke c f st))"
    by (simp add: invoke_def)
qed

lemma orderly_try_invoke: "orderly (try_except (invoke c (f :: ('s, 'a) svc)))"
proof (rule orderlyI)
  fix st :: "'s state"
  obtain r x where f: "f (ext st) = (r, x)" by (cases "f (ext st)")
  have "surfaced [Service c (outcome_of r)] (reraised r)"
    by (rule surfaced_single) (cases r; simp)
  with f show "\<exists>evs. trace (snd (try_except (invoke c f) st)) = trace st @ evs \<and>
                 surfaced evs (fst (try_except (invoke c f) st))"
    by (simp add: invoke_def try_except_def)
qed

lemma orderly_bind:
  assumes m: "orderly m" and f: "\<And>x. orderly (f x)"
  shows "orderly (bind m f)"
proof (rule orderlyI)
  fix st
  obtain r st1 where run: "m st = (r, st1)" by (cases "m st")
  from m run obtain evs1 where evs1: "trace st1 = trace st @ evs1" "surfaced evs1 r"
    by (rule orderlyE)
  show "\<exists>evs. trace (snd (bind m f st)) = trace st @ evs \<and> surfaced evs (fst (bind m f st))"
  proof (cases r)
    case (Inl e)
    with run evs1 show ?thesis
      by (auto simp: bind_def intro: surfaced_Inl)
  next
    case (Inr v)
    obtain r2 st2 where run2: "f v st1 = (r2, st2)" by (cases "f v st1")
    from f run2 obtain evs2 where evs2: "trace st2 = trace st1 @ evs2" "surfaced evs2 r2"
      by (rule orderlyE)
    from evs1 Inr have "\<forall>ev\<in>set evs1. \<not> is_raise ev"
      by (auto dest: surfaced_Inr)
    then have "surfaced (evs1 @ evs2) r2"
      using evs2(2) by (rule surfaced_append)
    with run Inr run2 evs1 evs2 show ?thesis
      by (auto simp: bind_def)
  qed
qed

lemma orderly_decorated:
  assumes "orderly body"
  shows "orderly (decorated env ds u body)"
  using assms by (induction ds) (auto simp: orderly_raise split: option.splits)

lemma orderly_if:
  "(b \<Longrightarrow> orderly m) \<Longrightarrow> (\<not> b \<Longrightarrow> orderly n) \<Longrightarrow> orderly (if b then m else n)"
  by simp

lemma orderly_case_option:
  "orderly m \<Longrightarrow> (\<And>x. orderly (f x)) \<Longrightarrow> orderly (case v of None \<Rightarrow> m | Some x \<Rightarrow> f x)"
  by (cases v) simp_all

lemma orderly_case_prod:
  "(\<And>a b. orderly (f a b)) \<Longrightarrow> orderly (case p of (a, b) \<Rightarrow> f a b)"
  by (cases p) simp

lemma orderly_check_plugin_unique_identifiers:
  "orderly (check_plugin_unique_identifiers ids)"
  by (induction ids) (simp_all add: orderly_return orderly_raise)

lemmas orderly_intros =
  orderly_decorated orderly_bind orderly_try_invoke orderly_invoke orderly_return
  orderly_raise orderly_lift orderly_read orderly_if orderly_case_option orderly_case_prod
  orderly_check_plugin_unique_identifiers

lemmas all_call_defs =
  call_get_debugging_key_def call_list_with_total_def call_list_latest_versions_def
  call_list_installations_from_ids_def call_get_asset_def call_upload_pkg_def
  call_upload_pkg_from_github_def call_upload_bundle_def call_install_from_local_pkg_def
  call_install_from_github_def call_install_from_marketplace_pkg_def
  call_fetch_marketplace_pkg_def call_fetch_plugin_manifest_def call_fetch_install_tasks_def
  call_fetch_install_task_def call_delete_install_task_def
  call_delete_all_install_task_items_def call_delete_install_task_item_def
  call_upgrade_plugin_with_marketplace_def call_upgrade_plugin_with_github_def
  call_uninstall_def call_change_permission_def call_get_permission_def
  call_get_dynamic_select_options_def call_change_strategy_def call_get_strategy_def
  call_exclude_plugin_def

lemmas method_defs =
  PluginDebuggingKeyApi_get_def PluginListApi_get_def PluginListLatestVersionsApi_post_def
  PluginListInstallationsFromIdsApi_post_def PluginIconApi_get_def
  PluginUploadFromPkgApi_post_def PluginUploadFromGithubApi_post_def
  PluginUploadFromBundleApi_post_def PluginInstallFromPkgApi_post_def
  PluginInstallFromGithubApi_post_def PluginInstallFromMarketplaceApi_post_def
  PluginFetchMarketplacePkgApi_get_def PluginFetchManifestApi_get_def
  PluginFetchInstallTasksApi_get_def PluginFetchInstallTaskApi_get_def
  PluginDeleteInstallTaskApi_post_def PluginDeleteAllInstallTaskItemsApi_post_def
  PluginDeleteInstallTaskItemApi_post_def PluginUpgradeFromMarketplaceApi_post_def
  PluginUpgradeFromGithubApi_post_def PluginUninstallApi_post_def
  PluginChangePermissionApi_post_def PluginFetchPermissionApi_get_def
  PluginFetchDynamicSelectOptionsApi_get_def PluginChangePreferencesApi_post_def
  PluginFetchPreferencesApi_get_def PluginAutoUpgradeExcludePluginApi_post_def

lemma orderly_dispatch: "orderly (dispatch env u req)"
  by (cases req;
      simp only: dispatch.simps method_defs all_call_defs Let_def try_except_bind_return;
      intro orderly_intros; simp)

text \<open>
  C6. In every operation of the module, a service call that raises the daemon's client-side
  error \<open>e\<close> ends the request: it is the last event of the request, no call before it
  raised and none follows it, so nothing is retried. The caller receives \<open>e\<close> itself, with
  its code and message untouched, as the argument of the \<^verbatim>\<open>ValueError\<close> that the
  \<^verbatim>\<open>except\<close> clause of the method raises; where the call is one of the permission or
  auto-upgrade services, which have no such clause around them, the caller receives the
  exception as it was raised.
\<close>

theorem daemon_error_surfaced:
  assumes run: "dispatch env u req st = (r, st')"
    and evs: "trace st' = trace st @ evs"
    and ev: "Service c (Raises (PluginDaemonClientSideError e)) \<in> set evs"
  shows "(r = Inl (ValueError (Caught e)) \<or>
          (service_of c = PluginPermissionService_class \<or>
           service_of c = PluginAutoUpgradeService_class) \<and>
          r = Inl (PluginDaemonClientSideError e))
       \<and> (\<exists>pre. evs = pre @ [Service c (Raises (PluginDaemonClientSideError e))] \<and>
                 (\<forall>ev\<in>set pre. \<not> is_raise ev))"
proof -
  from orderly_dispatch run obtain evs' where "trace st' = trace st @ evs'" "surfaced evs' r"
    by (rule orderlyE)
  with evs have "surfaced evs r" by simp
  with ev show ?thesis
    unfolding surfaced_def by fastforce
qed

theorem daemon_error_surfaced_witness:
  "dispatch
     (fixed_env (Inl (PluginDaemonClientSideError
                        \<lparr>code = ''bad_request'', message = ''manifest is missing''\<rparr>))
        True True None None)
     owner
     (PluginUploadFromPkgApi_POST [''pkg'' \<mapsto> \<lparr>content_length = 3, content = [1, 2, 3]\<rparr>])
     start =
     (Inl (ValueError (Caught \<lparr>code = ''bad_request'', message = ''manifest is missing''\<rparr>)),
      \<lparr>trace =
         [File_read \<lparr>content_length = 3, content = [1, 2, 3]\<rparr>,
          Service (Upload_pkg ''t-1'' [1, 2, 3])
            (Raises (PluginDaemonClientSideError
                       \<lparr>code = ''bad_request'', message = ''manifest is missing''\<rparr>))],
       ext = 1\<rparr>)
   \<and> (\<exists>pre.
        [File_read \<lparr>content_length = 3, content = [1, 2, 3]\<rparr>,
         Service (Upload_pkg ''t-1'' [1, 2, 3])
           (Raises (PluginDaemonClientSideError
                      \<lparr>code = ''bad_request'', message = ''manifest is missing''\<rparr>))] =
        pre @ [Service (Upload_pkg ''t-1'' [1, 2, 3])
                 (Raises (PluginDaemonClientSideError
                            \<lparr>code = ''bad_request'', message = ''manifest is missing''\<rparr>))] \<and>
        (\<forall>ev\<in>set pre. \<not> is_raise ev))"
proof -
  let ?d = "\<lparr>code = ''bad_request'', message = ''manifest is missing''\<rparr>"
  let ?env = "fixed_env (Inl (PluginDaemonClientSideError ?d)) True True None None"
  let ?file = "\<lparr>content_length = 3, content = [1, 2, 3]\<rparr>"
  let ?evs = "[File_read ?file,
               Service (Upload_pkg ''t-1'' [1, 2, 3]) (Raises (PluginDaemonClientSideError ?d))]"
  have run: "dispatch ?env owner (PluginUploadFromPkgApi_POST [''pkg'' \<mapsto> ?file]) start =
     (Inl (ValueError (Caught ?d)), \<lparr>trace = ?evs, ext = 1\<rparr>)"
    by (simp add: PluginUploadFromPkgApi_post_def fixed_defs call_upload_pkg_def prog_defs Let_def)
  have evs: "trace \<lparr>trace = ?evs, ext = (1::nat)\<rparr> = trace start @ ?evs"
    by (simp add: start_def)
  have ev: "Service (Upload_pkg ''t-1'' [1, 2, 3]) (Raises (PluginDaemonClientSideError ?d))
              \<in> set ?evs"
    by simp
  show ?thesis
    using daemon_error_surfaced [OF run evs ev] run by simp
qed

end
